theory Spec2Isabelle
  imports Complex_Main "HOL-Library.Word"
begin

unbundle bit_operations_syntax

section \<open>Values and errors\<close>

text \<open>
  The program is \<^verbatim>\<open>read_waveplus.py\<close>: it finds an Airthings Wave Plus by the serial
  number in its Bluetooth advertisement, connects, reads one 20-byte characteristic and
  decodes it into sensor values, in a loop.

  Python values that the program stores in one variable at different types are the
  constructors of \<open>pyval\<close>: a serial number is an integer or the text \<^verbatim>\<open>"Unknown"\<close>,
  a sensor value is \<^verbatim>\<open>None\<close>, a float, an integer or the text \<^verbatim>\<open>"N/A"\<close>.
  \<open>PyFloat q\<close> stands for the float that Python computes for the quotient \<open>q\<close>:
  the operands are integers below \<open>2 ^ 16\<close>, so they convert exactly, and true division
  rounds the exact quotient once.
\<close>

type_synonym byte = "8 word"

datatype pyval = PyNone | PyInt int | PyFloat real | PyStr string

text \<open>
  The three places that print a diagnostic and call \<^verbatim>\<open>sys.exit(1)\<close> are told apart by
  the diagnostic: \<^verbatim>\<open>"ERROR: Could not find device."\<close> in \<^verbatim>\<open>connect\<close>,
  \<^verbatim>\<open>"ERROR: Devices are not connected."\<close> in \<^verbatim>\<open>read\<close> and
  \<^verbatim>\<open>"ERROR: Unknown sensor version."\<close> in \<^verbatim>\<open>Sensors.set\<close>.
\<close>

datatype diagnostic = DeviceNotFound | NotConnected | UnsupportedVersion

text \<open>
  \<open>SystemExit\<close> is what \<^verbatim>\<open>sys.exit(1)\<close> raises; \<open>ConnectionFailed\<close> is
  \<^verbatim>\<open>Exception("Failed to connect. Check if device is on and if you are close enough.")\<close>;
  \<open>TransportError\<close> is an exception raised inside a call of the Bluetooth library;
  the others are the built-in exceptions of the same names (\<open>StructError\<close> is
  \<^verbatim>\<open>struct.error\<close>).
\<close>

datatype error =
    SystemExit diagnostic
  | ConnectionFailed
  | TransportError
  | ValueError
  | IndexError
  | KeyError
  | StructError

text \<open>\<^verbatim>\<open>except Exception\<close> catches every error but \<open>SystemExit\<close>.\<close>

fun is_Exception :: "error \<Rightarrow> bool" where
  "is_Exception (SystemExit d) = False"
| "is_Exception e = True"

text \<open>Sequencing of computations that may raise: the first error ends the computation.\<close>

definition bnd :: "error + 'a \<Rightarrow> ('a \<Rightarrow> error + 'b) \<Rightarrow> error + 'b" where
  "bnd m f = (case m of Inl e \<Rightarrow> Inl e | Inr x \<Rightarrow> f x)"

text \<open>\<^verbatim>\<open>xs[i]\<close> for an index that is not negative: out of range raises IndexError.\<close>

definition getitem :: "'a list \<Rightarrow> nat \<Rightarrow> error + 'a" where
  "getitem xs i = (if i < length xs then Inr (xs ! i) else Inl IndexError)"

section \<open>The serial number in the advertisement\<close>

text \<open>
  \<^verbatim>\<open>bytearray.fromhex\<close> belongs to Python, not to the program. Its behaviour, as the
  language reference gives it: white space between bytes is skipped, every byte is two
  hexadecimal digits of either case, anything else raises ValueError.
\<close>

definition hexdigits :: "(char \<times> nat) list" where
  "hexdigits =
    [(CHR ''0'', 0), (CHR ''1'', 1), (CHR ''2'', 2), (CHR ''3'', 3), (CHR ''4'', 4),
     (CHR ''5'', 5), (CHR ''6'', 6), (CHR ''7'', 7), (CHR ''8'', 8), (CHR ''9'', 9),
     (CHR ''a'', 10), (CHR ''b'', 11), (CHR ''c'', 12), (CHR ''d'', 13), (CHR ''e'', 14),
     (CHR ''f'', 15),
     (CHR ''A'', 10), (CHR ''B'', 11), (CHR ''C'', 12), (CHR ''D'', 13), (CHR ''E'', 14),
     (CHR ''F'', 15)]"

definition hexval :: "char \<Rightarrow> nat option" where
  "hexval c = map_of hexdigits c"

definition isspace :: "char \<Rightarrow> bool" where
  "isspace c = (c \<in> set [CHR '' '', CHR 0x09, CHR 0x0A, CHR 0x0B, CHR 0x0C, CHR 0x0D])"

fun fromhex :: "string \<Rightarrow> error + byte list" where
  "fromhex [] = Inr []"
| "fromhex [c] = (if isspace c then Inr [] else Inl ValueError)"
| "fromhex (c # d # cs) =
     (if isspace c then fromhex (d # cs)
      else case hexval c of
        None \<Rightarrow> Inl ValueError
      | Some hi \<Rightarrow>
          (case hexval d of
             None \<Rightarrow> Inl ValueError
           | Some lo \<Rightarrow>
               (case fromhex cs of
                  Inl e \<Rightarrow> Inl e
                | Inr bs \<Rightarrow> Inr (word_of_nat (16 * hi + lo) # bs))))"

text \<open>
  \<^verbatim>\<open>parseSerialNumber(ManuDataHexStr)\<close>. The argument is what \<^verbatim>\<open>dev.getValueText(255)\<close>
  gave: \<^verbatim>\<open>None\<close> or a text. The bytes of the bytearray are integers from 0 to 255, and
  the shifts and ors are those of Python's unbounded integers.
\<close>

definition parseSerialNumber :: "string option \<Rightarrow> error + pyval" where
  "parseSerialNumber ManuDataHexStr =
    (case ManuDataHexStr of
       None \<Rightarrow> Inr (PyStr ''Unknown'')
     | Some str \<Rightarrow>
         if str = ''None'' then Inr (PyStr ''Unknown'')
         else
           bnd (fromhex str) (\<lambda>ManuData.
           bnd (getitem ManuData 1) (\<lambda>m1.
           bnd (getitem ManuData 0) (\<lambda>m0.
             if push_bit 8 (uint m1) OR uint m0 = (0x0334 :: int) then
               bnd (getitem ManuData 2) (\<lambda>m2.
               bnd (getitem ManuData 3) (\<lambda>m3.
               bnd (getitem ManuData 4) (\<lambda>m4.
               bnd (getitem ManuData 5) (\<lambda>m5.
                 Inr (PyInt (((uint m2 OR push_bit 8 (uint m3)) OR push_bit 16 (uint m4))
                              OR push_bit 24 (uint m5)))))))
             else Inr (PyStr ''Unknown'')))))"

text \<open>
  The unsigned integer that a byte sequence encodes in little-endian order: the first
  byte is the least significant. This is the reading that the specification's words
  "little-endian 16-bit" and "little-endian 32-bit unsigned" name, and the reading of an
  \<^verbatim>\<open>H\<close> field by \<^verbatim>\<open>struct.unpack\<close> under \<^verbatim>\<open><\<close>.
\<close>

fun le_uint :: "byte list \<Rightarrow> int" where
  "le_uint [] = 0"
| "le_uint (b # bs) = uint b + 256 * le_uint bs"

section \<open>Decoding a frame\<close>

text \<open>
  \<^verbatim>\<open>struct.unpack('<BBBBHHHHHHHH', rawdata)\<close>: four bytes, then eight 16-bit words in
  little-endian order, twelve integers in all. The format takes 4 + 8 * 2 = 20 bytes;
  any other length raises \<^verbatim>\<open>struct.error\<close>.
\<close>

fun words_le :: "byte list \<Rightarrow> int list" where
  "words_le (a # b # rest) = le_uint [a, b] # words_le rest"
| "words_le rest = []"

definition unpack :: "byte list \<Rightarrow> error + int list" where
  "unpack rawdata =
     (if length rawdata = 20 then Inr (map uint (take 4 rawdata) @ words_le (drop 4 rawdata))
      else Inl StructError)"

text \<open>The class \<^verbatim>\<open>Sensors\<close>: its index constants, its fields, \<^verbatim>\<open>__init__\<close>.\<close>

definition HUMIDITY :: nat where [simp]: "HUMIDITY = 0"
definition RADON_SHORT_TERM_AVG :: nat where [simp]: "RADON_SHORT_TERM_AVG = 1"
definition RADON_LONG_TERM_AVG :: nat where [simp]: "RADON_LONG_TERM_AVG = 2"
definition TEMPERATURE :: nat where [simp]: "TEMPERATURE = 3"
definition REL_ATM_PRESSURE :: nat where [simp]: "REL_ATM_PRESSURE = 4"
definition CO2_LVL :: nat where [simp]: "CO2_LVL = 5"
definition VOC_LVL :: nat where [simp]: "VOC_LVL = 6"

record Sensors =
  sensor_version :: pyval
  numberOfSensors :: nat
  sensor_data :: "pyval list"
  sensor_units :: "string list"

definition unit_table :: "string list" where
  "unit_table = [''%rH'', ''Bq/m3'', ''Bq/m3'', ''degC'', ''hPa'', ''ppm'', ''ppb'']"

definition Sensors_init :: "nat \<Rightarrow> Sensors" where
  "Sensors_init n =
     \<lparr> sensor_version = PyNone,
       numberOfSensors = n,
       sensor_data = replicate n PyNone,
       sensor_units = take n unit_table \<rparr>"

text \<open>\<^verbatim>\<open>Sensors.conv2radon(radon_raw)\<close>.\<close>

definition conv2radon :: "int \<Rightarrow> pyval" where
  "conv2radon radon_raw =
     (if 0 \<le> radon_raw \<and> radon_raw \<le> 16383 then PyInt radon_raw else PyStr ''N/A'')"

text \<open>
  The dictionary \<^verbatim>\<open>processor\<close> of \<^verbatim>\<open>Sensors.set\<close>. All seven entries are computed
  when the dictionary is built, whatever the number of sensors.
\<close>

definition processor :: "int list \<Rightarrow> error + (nat \<rightharpoonup> pyval)" where
  "processor rawData =
     bnd (getitem rawData 1) (\<lambda>r1.
     bnd (getitem rawData 4) (\<lambda>r4.
     bnd (getitem rawData 5) (\<lambda>r5.
     bnd (getitem rawData 6) (\<lambda>r6.
     bnd (getitem rawData 7) (\<lambda>r7.
     bnd (getitem rawData 8) (\<lambda>r8.
     bnd (getitem rawData 9) (\<lambda>r9.
       Inr [HUMIDITY \<mapsto> PyFloat (real_of_int r1 / 2),
            RADON_SHORT_TERM_AVG \<mapsto> conv2radon r4,
            RADON_LONG_TERM_AVG \<mapsto> conv2radon r5,
            TEMPERATURE \<mapsto> PyFloat (real_of_int r6 / 100),
            REL_ATM_PRESSURE \<mapsto> PyFloat (real_of_int r7 / 50),
            CO2_LVL \<mapsto> PyFloat (real_of_int r8 * 1),
            VOC_LVL \<mapsto> PyFloat (real_of_int r9 * 1)])))))))"

text \<open>
  The loop \<^verbatim>\<open>for sensor in range(self.numberOfSensors)\<close>, over the indices still to
  do. A key that the dictionary lacks raises KeyError, an index outside the list
  IndexError; the entries stored before stay stored.
\<close>

fun set_loop :: "(nat \<rightharpoonup> pyval) \<Rightarrow> nat list \<Rightarrow> pyval list \<Rightarrow> error option \<times> pyval list" where
  "set_loop proc [] data = (None, data)"
| "set_loop proc (sensor # rest) data =
     (case proc sensor of
        None \<Rightarrow> (Some KeyError, data)
      | Some v \<Rightarrow>
          if sensor < length data then set_loop proc rest (data[sensor := v])
          else (Some IndexError, data))"

text \<open>
  \<^verbatim>\<open>Sensors.set(rawData)\<close>: the error raised, if any, and the object as the call
  leaves it.
\<close>

definition set_sensors :: "Sensors \<Rightarrow> int list \<Rightarrow> error option \<times> Sensors" where
  "set_sensors self rawData =
     (case getitem rawData 0 of
        Inl e \<Rightarrow> (Some e, self)
      | Inr v \<Rightarrow>
          (let self1 = self\<lparr>sensor_version := PyInt v\<rparr> in
           if v = 1 then
             (case processor rawData of
                Inl e \<Rightarrow> (Some e, self1)
              | Inr proc \<Rightarrow>
                  (case set_loop proc [0 ..< numberOfSensors self1] (sensor_data self1) of
                     (r, data) \<Rightarrow> (r, self1\<lparr>sensor_data := data\<rparr>)))
           else (Some (SystemExit UnsupportedVersion), self1)))"

text \<open>
  The last four lines of \<^verbatim>\<open>WavePlus.read\<close>, from the bytes read to the object
  returned: unpack, a fresh \<^verbatim>\<open>Sensors(self.numSensors)\<close>, \<^verbatim>\<open>set\<close>.
\<close>

definition decode :: "nat \<Rightarrow> byte list \<Rightarrow> error + Sensors" where
  "decode numSensors rawdata =
     bnd (unpack rawdata) (\<lambda>raw.
       case set_sensors (Sensors_init numSensors) raw of
         (Some e, sensors) \<Rightarrow> Inl e
       | (None, sensors) \<Rightarrow> Inr sensors)"

section \<open>The Bluetooth library\<close>

text \<open>
  The program calls the library \<^verbatim>\<open>bluepy\<close> for every Bluetooth operation. The library is
  a parameter of the model: a \<open>transport\<close> says what each call returns, \<open>None\<close> (for
  \<open>periph_disconnect\<close>, \<open>False\<close>) when the call raises an exception of the library,
  which the model calls \<open>TransportError\<close>. The first argument of each field is the number
  of library calls made before this one, so that the same call may fail once and succeed
  later.

  \<open>scan\<close> is \<^verbatim>\<open>scanner.scan(0.1)\<close>; a \<open>ScanEntry\<close> has the two things the program reads
  of a device, \<^verbatim>\<open>dev.addr\<close> and \<^verbatim>\<open>dev.getValueText(255)\<close>. \<open>Peripheral\<close> is the
  constructor \<^verbatim>\<open>Peripheral(addr)\<close>, \<open>getCharacteristics\<close> is
  \<^verbatim>\<open>periph.getCharacteristics(uuid=...)\<close>, \<open>char_read\<close> is \<^verbatim>\<open>curr_val_char.read()\<close> and
  \<open>periph_disconnect\<close> is \<^verbatim>\<open>periph.disconnect()\<close>. Handles are numbers.
\<close>

record ScanEntry =
  addr :: string
  getValueText :: "string option"

type_synonym peripheral = nat
type_synonym characteristic = nat

record transport =
  scan :: "nat \<Rightarrow> ScanEntry list option"
  Peripheral :: "nat \<Rightarrow> string option \<Rightarrow> peripheral option"
  getCharacteristics :: "nat \<Rightarrow> peripheral \<Rightarrow> string \<Rightarrow> characteristic list option"
  char_read :: "nat \<Rightarrow> characteristic \<Rightarrow> byte list option"
  periph_disconnect :: "nat \<Rightarrow> peripheral \<Rightarrow> bool"

section \<open>The class WavePlus\<close>

record WavePlus =
  periph :: "peripheral option"
  curr_val_char :: "characteristic option"
  MacAddr :: "string option"
  SN :: int
  uuid :: string
  numSensors :: nat

definition WavePlus_init :: "int \<Rightarrow> bool \<Rightarrow> WavePlus" where
  "WavePlus_init SerialNumber hasAirQuality =
     \<lparr> periph = None,
       curr_val_char = None,
       MacAddr = None,
       SN = SerialNumber,
       uuid = (if hasAirQuality then ''b42e2a68-ade7-11e4-89d3-123b93f75cba''
               else ''b42e4dcc-ade7-11e4-89d3-123b93f75cba''),
       numSensors = (if hasAirQuality then 7 else 4) \<rparr>"

definition getNumSensors :: "WavePlus \<Rightarrow> nat" where
  "getNumSensors self = numSensors self"

text \<open>
  A method of \<open>WavePlus\<close> works on a \<open>session\<close>: the number of library calls made so
  far and the object. It returns what it raised or returned, and the session as it leaves it.
\<close>

type_synonym session = "nat \<times> WavePlus"

text \<open>
  The loop \<^verbatim>\<open>for dev in devices\<close> of \<^verbatim>\<open>connect\<close>: the address of the first device
  whose serial number is the one looked for, \<open>None\<close> when the loop ends without
  \<^verbatim>\<open>break\<close>. The serial number looked for is an integer (the command line reads it with
  \<^verbatim>\<open>type = int\<close>), which the text \<^verbatim>\<open>"Unknown"\<close> never equals.
\<close>

fun find_dev :: "int \<Rightarrow> ScanEntry list \<Rightarrow> error + string option" where
  "find_dev sn [] = Inr None"
| "find_dev sn (dev # devices) =
     (case parseSerialNumber (getValueText dev) of
        Inl e \<Rightarrow> Inl e
      | Inr SNv \<Rightarrow> if SNv = PyInt sn then Inr (Some (addr dev)) else find_dev sn devices)"

text \<open>
  The loop \<^verbatim>\<open>while self.MacAddr is None and searchCount < 50\<close>, entered with
  \<^verbatim>\<open>self.MacAddr\<close> being \<^verbatim>\<open>None\<close>: the address found, or \<open>None\<close> after the 50th scan,
  and the number of library calls after the loop.
\<close>

function search :: "transport \<Rightarrow> int \<Rightarrow> nat \<Rightarrow> nat \<Rightarrow> (error + string option) \<times> nat" where
  "search tr sn searchCount t =
     (if searchCount < 50 then
        (case scan tr t of
           None \<Rightarrow> (Inl TransportError, Suc t)
         | Some devices \<Rightarrow>
             (case find_dev sn devices of
                Inl e \<Rightarrow> (Inl e, Suc t)
              | Inr (Some a) \<Rightarrow> (Inr (Some a), Suc t)
              | Inr None \<Rightarrow> search tr sn (Suc searchCount) (Suc t)))
      else (Inr None, t))"
  by pat_completeness auto
termination
  by (relation "measure (\<lambda>(tr, sn, searchCount, t). 50 - searchCount)") auto

declare search.simps [simp del]

text \<open>The first half of \<^verbatim>\<open>connect\<close>: \<^verbatim>\<open>if (self.MacAddr is None): ...\<close>.\<close>

definition discover :: "transport \<Rightarrow> session \<Rightarrow> error option \<times> session" where
  "discover tr s =
     (case s of (t, self) \<Rightarrow>
        if MacAddr self = None then
          (case search tr (SN self) 0 t of
             (Inl e, t') \<Rightarrow> (Some e, t', self)
           | (Inr None, t') \<Rightarrow> (Some (SystemExit DeviceNotFound), t', self)
           | (Inr (Some a), t') \<Rightarrow> (None, t', self\<lparr>MacAddr := Some a\<rparr>))
        else (None, t, self))"

text \<open>
  The body of the \<^verbatim>\<open>try\<close> of \<^verbatim>\<open>connect\<close>, in two steps. \<^verbatim>\<open>[0]\<close> on an empty list
  of characteristics raises IndexError.
\<close>

definition resolve_char :: "transport \<Rightarrow> peripheral \<Rightarrow> session \<Rightarrow> error option \<times> session" where
  "resolve_char tr p s =
     (case s of (t, self) \<Rightarrow>
        if curr_val_char self = None then
          (case getCharacteristics tr t p (uuid self) of
             None \<Rightarrow> (Some TransportError, Suc t, self)
           | Some [] \<Rightarrow> (Some IndexError, Suc t, self)
           | Some (c # cs) \<Rightarrow> (None, Suc t, self\<lparr>curr_val_char := Some c\<rparr>))
        else (None, t, self))"

definition establish :: "transport \<Rightarrow> session \<Rightarrow> error option \<times> session" where
  "establish tr s =
     (case s of (t, self) \<Rightarrow>
        (case periph self of
           None \<Rightarrow>
             (case Peripheral tr t (MacAddr self) of
                None \<Rightarrow> (Some TransportError, Suc t, self)
              | Some p \<Rightarrow> resolve_char tr p (Suc t, self\<lparr>periph := Some p\<rparr>))
         | Some p \<Rightarrow> resolve_char tr p (t, self)))"

text \<open>
  \<^verbatim>\<open>WavePlus.connect\<close>. \<^verbatim>\<open>except Exception\<close> turns whatever the \<^verbatim>\<open>try\<close> raised into
  \<open>ConnectionFailed\<close>; what the first half raises is not caught.
\<close>

definition connect :: "transport \<Rightarrow> session \<Rightarrow> error option \<times> session" where
  "connect tr s =
     (case discover tr s of
        (Some e, s1) \<Rightarrow> (Some e, s1)
      | (None, s1) \<Rightarrow>
          (case establish tr s1 of
             (Some e, s2) \<Rightarrow> (Some (if is_Exception e then ConnectionFailed else e), s2)
           | (None, s2) \<Rightarrow> (None, s2)))"

text \<open>\<^verbatim>\<open>WavePlus.read\<close>.\<close>

definition read :: "transport \<Rightarrow> session \<Rightarrow> (error + Sensors) \<times> session" where
  "read tr s =
     (case s of (t, self) \<Rightarrow>
        (case curr_val_char self of
           None \<Rightarrow> (Inl (SystemExit NotConnected), t, self)
         | Some c \<Rightarrow>
             (case char_read tr t c of
                None \<Rightarrow> (Inl TransportError, Suc t, self)
              | Some rawdata \<Rightarrow> (decode (numSensors self) rawdata, Suc t, self))))"

text \<open>
  \<^verbatim>\<open>WavePlus.disconnect\<close>. Nothing catches what \<^verbatim>\<open>self.periph.disconnect()\<close> raises,
  and the two assignments after it are then not reached.
\<close>

definition disconnect :: "transport \<Rightarrow> session \<Rightarrow> error option \<times> session" where
  "disconnect tr s =
     (case s of (t, self) \<Rightarrow>
        (case periph self of
           None \<Rightarrow> (None, t, self)
         | Some p \<Rightarrow>
             if periph_disconnect tr t p
             then (None, Suc t, self\<lparr>periph := None, curr_val_char := None\<rparr>)
             else (Some TransportError, Suc t, self)))"

section \<open>The main program\<close>

text \<open>
  One turn of \<^verbatim>\<open>while True\<close>: connect, read, print, disconnect, sleep. Formatting and
  sleeping are left out. The turn returns the \<open>Sensors\<close> object that it printed, if it
  came that far, the error that it raised, if any, and the session. The reading is
  printed before \<^verbatim>\<open>disconnect\<close> is called.
\<close>

definition cycle :: "transport \<Rightarrow> session \<Rightarrow> Sensors option \<times> error option \<times> session" where
  "cycle tr s =
     (case connect tr s of
        (Some e, s1) \<Rightarrow> (None, Some e, s1)
      | (None, s1) \<Rightarrow>
          (case read tr s1 of
             (Inl e, s2) \<Rightarrow> (None, Some e, s2)
           | (Inr sensors, s2) \<Rightarrow>
               (case disconnect tr s2 of (r, s3) \<Rightarrow> (Some sensors, r, s3))))"

definition printed :: "Sensors option \<Rightarrow> Sensors list" where
  "printed p = (case p of None \<Rightarrow> [] | Some sensors \<Rightarrow> [sensors])"

text \<open>
  The loop \<^verbatim>\<open>while True\<close> has no exit but an exception. The first argument bounds the
  number of turns: \<open>None\<close> says that the loop is still running after that many turns,
  \<open>Some (e, s, out)\<close> that a turn raised \<open>e\<close> in session \<open>s\<close> after the readings
  \<open>out\<close> were printed.
\<close>

fun poll_loop :: "nat \<Rightarrow> transport \<Rightarrow> session \<Rightarrow> Sensors list
    \<Rightarrow> (error \<times> session \<times> Sensors list) option" where
  "poll_loop 0 tr s out = None"
| "poll_loop (Suc fuel) tr s out =
     (case cycle tr s of
        (p, Some e, s1) \<Rightarrow> Some (e, s1, out @ printed p)
      | (p, None, s1) \<Rightarrow> poll_loop fuel tr s1 (out @ printed p))"

text \<open>
  The \<^verbatim>\<open>try\<close> statement around the loop, started in session \<open>s\<close>. \<^verbatim>\<open>except Exception\<close>
  prints the message of an exception and \<^verbatim>\<open>finally\<close> calls \<^verbatim>\<open>disconnect\<close>, whatever
  was raised. The result: the readings printed, the error that ended the loop, whether
  \<^verbatim>\<open>except\<close> caught it, and what the \<^verbatim>\<open>disconnect\<close> of \<^verbatim>\<open>finally\<close> did.
\<close>

record outcome =
  readings :: "Sensors list"
  raised :: error
  caught :: bool
  cleanup :: "error option \<times> session"

definition run :: "nat \<Rightarrow> transport \<Rightarrow> session \<Rightarrow> outcome option" where
  "run fuel tr s =
     (case poll_loop fuel tr s [] of
        None \<Rightarrow> None
      | Some (e, s1, out) \<Rightarrow>
          Some \<lparr> readings = out, raised = e, caught = is_Exception e,
                 cleanup = disconnect tr s1 \<rparr>)"

text \<open>The program, from the serial number and the flag of the command line.\<close>

definition main :: "nat \<Rightarrow> transport \<Rightarrow> int \<Rightarrow> bool \<Rightarrow> outcome option" where
  "main fuel tr serial hasAirQuality = run fuel tr (0, WavePlus_init serial hasAirQuality)"

text \<open>
  The sessions that a program can reach with an object made by
  \<^verbatim>\<open>WavePlus(serial, hasAirQuality)\<close>, by calling its methods in any order, whatever they
  return or raise.
\<close>

inductive reachable :: "transport \<Rightarrow> int \<Rightarrow> bool \<Rightarrow> session \<Rightarrow> bool"
  for tr :: transport and serial :: int and hasAirQuality :: bool where
  created: "reachable tr serial hasAirQuality (0, WavePlus_init serial hasAirQuality)"
| connected: "reachable tr serial hasAirQuality s \<Longrightarrow> connect tr s = (r, s')
    \<Longrightarrow> reachable tr serial hasAirQuality s'"
| was_read: "reachable tr serial hasAirQuality s \<Longrightarrow> read tr s = (v, s')
    \<Longrightarrow> reachable tr serial hasAirQuality s'"
| disconnected: "reachable tr serial hasAirQuality s \<Longrightarrow> disconnect tr s = (r, s')
    \<Longrightarrow> reachable tr serial hasAirQuality s'"

section \<open>Properties of the serial number\<close>

lemma fromhex_None: "fromhex ''None'' = Inl ValueError"
  by (simp add: isspace_def hexval_def hexdigits_def)

lemma fromhex_Inr_not_None: "fromhex str = Inr bs \<Longrightarrow> str \<noteq> ''None''"
  using fromhex_None by auto

text \<open>An or with a value shifted past all bits of the other operand is a sum.\<close>

lemma or_push_bit_int:
  fixes a k :: int
  assumes "0 \<le> a" "a < 2 ^ n"
  shows "a OR push_bit n k = a + 2 ^ n * k"
proof -
  have self: "take_bit n a = a"
    using assms by (simp add: take_bit_int_eq_self)
  then have "a OR push_bit n k = concat_bit n a k"
    by (simp add: concat_bit_def)
  also have "\<dots> = take_bit n a + push_bit n k"
    by (rule concat_bit_eq)
  finally show ?thesis
    using self by (simp add: push_bit_eq_mult)
qed

lemma uint_byte_bounds: "0 \<le> uint (b :: byte)" "uint (b :: byte) < 256"
  using uint_lt2p [of b] by simp_all

lemma manufacturer_id_le:
  "push_bit 8 (uint (m1 :: byte)) OR uint (m0 :: byte) = le_uint [m0, m1]"
proof -
  have "uint m0 OR push_bit 8 (uint m1) = uint m0 + 2 ^ 8 * uint m1"
    by (rule or_push_bit_int) (use uint_byte_bounds [of m0] in simp_all)
  then show ?thesis
    by (simp add: or.commute)
qed

lemma serial_le:
  "((uint (m2 :: byte) OR push_bit 8 (uint (m3 :: byte))) OR push_bit 16 (uint (m4 :: byte)))
     OR push_bit 24 (uint (m5 :: byte)) = le_uint [m2, m3, m4, m5]"
proof -
  note b = uint_byte_bounds [of m2] uint_byte_bounds [of m3] uint_byte_bounds [of m4]
  have 1: "uint m2 OR push_bit 8 (uint m3) = uint m2 + 2 ^ 8 * uint m3"
    by (rule or_push_bit_int) (use b in simp_all)
  have 2: "(uint m2 + 2 ^ 8 * uint m3) OR push_bit 16 (uint m4)
      = (uint m2 + 2 ^ 8 * uint m3) + 2 ^ 16 * uint m4"
    by (rule or_push_bit_int) (use b in simp_all)
  have 3: "(uint m2 + 2 ^ 8 * uint m3 + 2 ^ 16 * uint m4) OR push_bit 24 (uint m5)
      = (uint m2 + 2 ^ 8 * uint m3 + 2 ^ 16 * uint m4) + 2 ^ 24 * uint m5"
    by (rule or_push_bit_int) (use b in simp_all)
  show ?thesis
    unfolding 1 2 3 by simp
qed

lemma le_uint_bounds: "0 \<le> le_uint bs \<and> le_uint bs < 256 ^ length bs"
proof (induction bs)
  case Nil
  show ?case by simp
next
  case (Cons b bs)
  have "uint b + 256 * le_uint bs \<le> 255 + 256 * (256 ^ length bs - 1)"
    using Cons uint_byte_bounds [of b] by simp
  then show ?case
    using Cons uint_byte_bounds [of b] by simp
qed

lemma six_bytes:
  "6 \<le> length xs \<Longrightarrow> \<exists>a b c d e f rest. xs = a # b # c # d # e # f # rest"
  by (auto simp: numeral_eq_Suc Suc_le_length_iff)

lemma two_bytes: "2 \<le> length xs \<Longrightarrow> \<exists>a b rest. xs = a # b # rest"
  by (auto simp: numeral_eq_Suc Suc_le_length_iff)

lemma short_bytes:
  "length xs < 6 \<Longrightarrow>
     xs = [] \<or> (\<exists>a. xs = [a]) \<or> (\<exists>a b rest. xs = a # b # rest \<and> length rest < 4)"
  by (cases xs; simp; cases "tl xs"; auto)

text \<open>What the function does with a text that \<open>fromhex\<close> accepts, in arithmetic.\<close>

lemma parseSerialNumber_bytes:
  "str \<noteq> ''None'' \<Longrightarrow> fromhex str = Inr ManuData \<Longrightarrow>
   parseSerialNumber (Some str) =
     bnd (getitem ManuData 1) (\<lambda>m1.
     bnd (getitem ManuData 0) (\<lambda>m0.
       if le_uint [m0, m1] = 0x0334 then
         bnd (getitem ManuData 2) (\<lambda>m2.
         bnd (getitem ManuData 3) (\<lambda>m3.
         bnd (getitem ManuData 4) (\<lambda>m4.
         bnd (getitem ManuData 5) (\<lambda>m5.
           Inr (PyInt (le_uint [m2, m3, m4, m5]))))))
       else Inr (PyStr ''Unknown'')))"
  unfolding parseSerialNumber_def manufacturer_id_le serial_le
  by (simp add: bnd_def)

text \<open>
  Claim C4. For an absent input the result is \<^verbatim>\<open>"Unknown"\<close>. For a text that encodes a
  payload of at least 6 bytes whose first two bytes are 0x0334 in little-endian order, the
  result is the integer that bytes 2 to 5 encode in little-endian order, which lies in
  the unsigned 32-bit range. For a text that encodes a payload with a manufacturer
  identifier (at least 2 bytes) other than 0x0334, the result is \<^verbatim>\<open>"Unknown"\<close>.
\<close>

theorem parseSerialNumber_payload:
  "parseSerialNumber None = Inr (PyStr ''Unknown'') \<and>
   (fromhex str = Inr ManuData \<and> 6 \<le> length ManuData \<and> le_uint (take 2 ManuData) = 0x0334 \<longrightarrow>
      parseSerialNumber (Some str) = Inr (PyInt (le_uint (take 4 (drop 2 ManuData))))
      \<and> 0 \<le> le_uint (take 4 (drop 2 ManuData))
      \<and> le_uint (take 4 (drop 2 ManuData)) < 2 ^ 32) \<and>
   (fromhex str = Inr ManuData \<and> 2 \<le> length ManuData \<and> le_uint (take 2 ManuData) \<noteq> 0x0334 \<longrightarrow>
      parseSerialNumber (Some str) = Inr (PyStr ''Unknown''))"
proof (intro conjI impI)
  show "parseSerialNumber None = Inr (PyStr ''Unknown'')"
    by (simp add: parseSerialNumber_def)
next
  assume h: "fromhex str = Inr ManuData \<and> 6 \<le> length ManuData
    \<and> le_uint (take 2 ManuData) = 0x0334"
  then obtain a b c d e f rest where xs: "ManuData = a # b # c # d # e # f # rest"
    using six_bytes by blast
  have "str \<noteq> ''None''"
    using h fromhex_Inr_not_None by blast
  with h xs show "parseSerialNumber (Some str) = Inr (PyInt (le_uint (take 4 (drop 2 ManuData))))"
    by (simp add: parseSerialNumber_bytes bnd_def getitem_def)
  show "0 \<le> le_uint (take 4 (drop 2 ManuData))"
    using le_uint_bounds by blast
  have "le_uint (take 4 (drop 2 ManuData)) < 256 ^ length (take 4 (drop 2 ManuData))"
    using le_uint_bounds by blast
  then show "le_uint (take 4 (drop 2 ManuData)) < 2 ^ 32"
    using xs by simp
next
  assume h: "fromhex str = Inr ManuData \<and> 2 \<le> length ManuData
    \<and> le_uint (take 2 ManuData) \<noteq> 0x0334"
  then obtain a b rest where xs: "ManuData = a # b # rest"
    using two_bytes by blast
  have "str \<noteq> ''None''"
    using h fromhex_Inr_not_None by blast
  with h xs show "parseSerialNumber (Some str) = Inr (PyStr ''Unknown'')"
    by (simp add: parseSerialNumber_bytes bnd_def getitem_def)
qed

theorem parseSerialNumber_payload_witness:
  "fromhex ''3403d2029649'' = Inr [0x34, 0x03, 0xd2, 0x02, 0x96, 0x49]
   \<and> parseSerialNumber (Some ''3403d2029649'') = Inr (PyInt 1234567890)
   \<and> fromhex ''4c000215'' = Inr [0x4c, 0x00, 0x02, 0x15]
   \<and> parseSerialNumber (Some ''4c000215'') = Inr (PyStr ''Unknown'')"
  using parseSerialNumber_payload [of "''3403d2029649''" "[0x34, 0x03, 0xd2, 0x02, 0x96, 0x49]"]
    parseSerialNumber_payload [of "''4c000215''" "[0x4c, 0x00, 0x02, 0x15]"]
  by (simp add: isspace_def hexval_def hexdigits_def)

text \<open>
  Claim C5, as stated, fails: the text \<^verbatim>\<open>"3403"\<close> encodes the two bytes of the
  identifier 0x0334 and nothing more, and reading byte 2 raises IndexError.
\<close>

theorem parseSerialNumber_short_raises:
  "fromhex ''3403'' = Inr [0x34, 0x03] \<and> parseSerialNumber (Some ''3403'') = Inl IndexError"
  by (simp add: parseSerialNumber_def bnd_def getitem_def isspace_def hexval_def hexdigits_def)

text \<open>
  Claim C5, amended. For a text that encodes fewer than 6 bytes, the result is
  \<^verbatim>\<open>"Unknown"\<close> when there are at least 2 bytes and the identifier is not 0x0334, and
  IndexError is raised otherwise. A text that \<open>fromhex\<close> rejects, other than
  \<^verbatim>\<open>"None"\<close>, raises what \<open>fromhex\<close> raises.
\<close>

theorem parseSerialNumber_short:
  "(fromhex str = Inr ManuData \<and> length ManuData < 6 \<longrightarrow>
      parseSerialNumber (Some str) =
        (if 2 \<le> length ManuData \<and> le_uint (take 2 ManuData) \<noteq> 0x0334
         then Inr (PyStr ''Unknown'') else Inl IndexError)) \<and>
   (fromhex str = Inl e \<and> str \<noteq> ''None'' \<longrightarrow> parseSerialNumber (Some str) = Inl e)"
proof (intro conjI impI)
  assume h: "fromhex str = Inr ManuData \<and> length ManuData < 6"
  then have ne: "str \<noteq> ''None''"
    using fromhex_Inr_not_None by blast
  from h short_bytes [of ManuData] consider "ManuData = []" | a where "ManuData = [a]"
    | a b rest where "ManuData = a # b # rest" "length rest < 4"
    by blast
  then show "parseSerialNumber (Some str) =
      (if 2 \<le> length ManuData \<and> le_uint (take 2 ManuData) \<noteq> 0x0334
       then Inr (PyStr ''Unknown'') else Inl IndexError)"
  proof cases
    case 1
    with h ne show ?thesis
      by (simp add: parseSerialNumber_bytes bnd_def getitem_def)
  next
    case 2
    with h ne show ?thesis
      by (simp add: parseSerialNumber_bytes bnd_def getitem_def)
  next
    case 3
    with h ne show ?thesis
      by (auto simp add: parseSerialNumber_bytes bnd_def getitem_def)
  qed
next
  assume "fromhex str = Inl e \<and> str \<noteq> ''None''"
  then show "parseSerialNumber (Some str) = Inl e"
    by (simp add: parseSerialNumber_def bnd_def)
qed

theorem parseSerialNumber_short_witness:
  "parseSerialNumber (Some ''4c00'') = Inr (PyStr ''Unknown'')
   \<and> parseSerialNumber (Some ''34030102'') = Inl IndexError
   \<and> parseSerialNumber (Some ''34'') = Inl IndexError
   \<and> parseSerialNumber (Some ''xy'') = Inl ValueError"
  using parseSerialNumber_short [of "''4c00''" "[0x4c, 0x00]"]
    parseSerialNumber_short [of "''34030102''" "[0x34, 0x03, 0x01, 0x02]"]
    parseSerialNumber_short [of "''34''" "[0x34]"]
    parseSerialNumber_short [of "''xy''" _ ValueError]
  by (simp add: isspace_def hexval_def hexdigits_def)

text \<open>
  Claim C10. The text \<^verbatim>\<open>"None"\<close> gets the result of an absent input, \<^verbatim>\<open>"Unknown"\<close>;
  left to \<open>fromhex\<close> it would raise ValueError.
\<close>

theorem parseSerialNumber_None_text:
  "parseSerialNumber (Some ''None'') = parseSerialNumber None
   \<and> parseSerialNumber (Some ''None'') = Inr (PyStr ''Unknown'')
   \<and> fromhex ''None'' = Inl ValueError"
  by (simp add: parseSerialNumber_def isspace_def hexval_def hexdigits_def)

section \<open>Properties of the decoder\<close>

text \<open>
  Claim C3. A raw value from 0 to 16383 is returned as it is; a raw value from 16384 to
  65535 gives the text \<^verbatim>\<open>"N/A"\<close>.
\<close>

theorem conv2radon_ranges:
  "(0 \<le> radon_raw \<and> radon_raw \<le> 16383 \<longrightarrow> conv2radon radon_raw = PyInt radon_raw) \<and>
   (16384 \<le> radon_raw \<and> radon_raw \<le> 65535 \<longrightarrow> conv2radon radon_raw = PyStr ''N/A'')"
  by (simp add: conv2radon_def)

theorem conv2radon_ranges_witness:
  "conv2radon 0 = PyInt 0 \<and> conv2radon 16383 = PyInt 16383
   \<and> conv2radon 16384 = PyStr ''N/A'' \<and> conv2radon 65535 = PyStr ''N/A''"
  using conv2radon_ranges [of 0] conv2radon_ranges [of 16383]
    conv2radon_ranges [of 16384] conv2radon_ranges [of 65535]
  by simp

lemma length_words_le: "length (words_le xs) = length xs div 2"
  by (induction xs rule: words_le.induct) simp_all

lemma nth_words_le:
  "2 * i + 1 < length xs \<Longrightarrow> words_le xs ! i = le_uint [xs ! (2 * i), xs ! (2 * i + 1)]"
proof (induction xs arbitrary: i rule: words_le.induct)
  case (1 a b rest)
  then show ?case by (cases i) simp_all
qed simp_all

lemma unpack_20:
  assumes "length frame = 20"
  shows "unpack frame = Inr
    [uint (frame ! 0), uint (frame ! 1), uint (frame ! 2), uint (frame ! 3),
     le_uint [frame ! 4, frame ! 5], le_uint [frame ! 6, frame ! 7],
     le_uint [frame ! 8, frame ! 9], le_uint [frame ! 10, frame ! 11],
     le_uint [frame ! 12, frame ! 13], le_uint [frame ! 14, frame ! 15],
     le_uint [frame ! 16, frame ! 17], le_uint [frame ! 18, frame ! 19]]"
proof -
  have len: "length (map uint (take 4 frame) @ words_le (drop 4 frame)) = 12"
    using assms by (simp add: length_words_le)
  have w: "words_le (drop 4 frame) ! i = le_uint [frame ! (4 + 2 * i), frame ! (4 + 2 * i + 1)]"
    if "i < 8" for i
    using that assms nth_words_le [of i "drop 4 frame"] by (simp add: add.assoc)
  have "map uint (take 4 frame) @ words_le (drop 4 frame) =
    [uint (frame ! 0), uint (frame ! 1), uint (frame ! 2), uint (frame ! 3),
     le_uint [frame ! 4, frame ! 5], le_uint [frame ! 6, frame ! 7],
     le_uint [frame ! 8, frame ! 9], le_uint [frame ! 10, frame ! 11],
     le_uint [frame ! 12, frame ! 13], le_uint [frame ! 14, frame ! 15],
     le_uint [frame ! 16, frame ! 17], le_uint [frame ! 18, frame ! 19]]"
  proof (rule nth_equalityI)
    show "length (map uint (take 4 frame) @ words_le (drop 4 frame)) = length
    [uint (frame ! 0), uint (frame ! 1), uint (frame ! 2), uint (frame ! 3),
     le_uint [frame ! 4, frame ! 5], le_uint [frame ! 6, frame ! 7],
     le_uint [frame ! 8, frame ! 9], le_uint [frame ! 10, frame ! 11],
     le_uint [frame ! 12, frame ! 13], le_uint [frame ! 14, frame ! 15],
     le_uint [frame ! 16, frame ! 17], le_uint [frame ! 18, frame ! 19]]"
      using len by simp
  next
    fix k assume "k < length (map uint (take 4 frame) @ words_le (drop 4 frame))"
    then have "k < 12" using len by simp
    then consider "k = 11" | "k = 10" | "k = 9" | "k = 8" | "k = 7" | "k = 6" | "k = 5"
      | "k = 4" | "k = 3" | "k = 2" | "k = 1" | "k = 0" by atomize_elim arith
    then show "(map uint (take 4 frame) @ words_le (drop 4 frame)) ! k =
    [uint (frame ! 0), uint (frame ! 1), uint (frame ! 2), uint (frame ! 3),
     le_uint [frame ! 4, frame ! 5], le_uint [frame ! 6, frame ! 7],
     le_uint [frame ! 8, frame ! 9], le_uint [frame ! 10, frame ! 11],
     le_uint [frame ! 12, frame ! 13], le_uint [frame ! 14, frame ! 15],
     le_uint [frame ! 16, frame ! 17], le_uint [frame ! 18, frame ! 19]] ! k"
      using assms w [of 0] w [of 1] w [of 2] w [of 3] w [of 4] w [of 5] w [of 6] w [of 7]
      by cases (simp_all add: nth_append)
  qed
  then show ?thesis using assms by (simp add: unpack_def)
qed

lemma set_loop_upt:
  assumes "\<forall>i<n. proc i = Some (f i)" "length data = n" "k \<le> n"
  shows "set_loop proc [k ..< n] data = (None, take k data @ map f [k ..< n])"
  using assms
proof (induction "n - k" arbitrary: k data)
  case 0
  then show ?case by simp
next
  case (Suc d)
  then have k: "k < n" by simp
  have "set_loop proc [k ..< n] data = set_loop proc [Suc k ..< n] (data[k := f k])"
    using k Suc.prems by (simp add: upt_conv_Cons)
  also have "\<dots> = (None, take (Suc k) (data[k := f k]) @ map f [Suc k ..< n])"
    using Suc.hyps(1) [of "Suc k" "data[k := f k]"] Suc.hyps(2) Suc.prems k by simp
  also have "take (Suc k) (data[k := f k]) = take k data @ [f k]"
    using k Suc.prems by (simp add: take_Suc_conv_app_nth)
  finally show ?case using k by (simp add: upt_conv_Cons)
qed

lemma processor_12:
  "processor [r0, r1, r2, r3, r4, r5, r6, r7, r8, r9, r10, r11] = Inr proc \<Longrightarrow>
   \<forall>i<7. proc i = Some ([PyFloat (real_of_int r1 / 2), conv2radon r4, conv2radon r5,
      PyFloat (real_of_int r6 / 100), PyFloat (real_of_int r7 / 50),
      PyFloat (real_of_int r8), PyFloat (real_of_int r9)] ! i)"
  by (auto simp: processor_def bnd_def getitem_def less_Suc_eq numeral_eq_Suc)

lemma processor_12_Inr:
  "\<exists>proc. processor [r0, r1, r2, r3, r4, r5, r6, r7, r8, r9, r10, r11] = Inr proc"
  by (simp add: processor_def bnd_def getitem_def)


lemma map_nth_take: "n \<le> length xs \<Longrightarrow> map ((!) xs) [0 ..< n] = take n xs"
  by (rule nth_equalityI) simp_all

lemma set_sensors_version_1:
  assumes "n \<le> 7"
  shows "set_sensors (Sensors_init n) [1, r1, r2, r3, r4, r5, r6, r7, r8, r9, r10, r11] =
    (None, \<lparr> sensor_version = PyInt 1, numberOfSensors = n,
      sensor_data = take n [PyFloat (real_of_int r1 / 2), conv2radon r4, conv2radon r5,
        PyFloat (real_of_int r6 / 100), PyFloat (real_of_int r7 / 50),
        PyFloat (real_of_int r8), PyFloat (real_of_int r9)],
      sensor_units = take n unit_table \<rparr>)"
proof -
  let ?raw = "[1, r1, r2, r3, r4, r5, r6, r7, r8, r9, r10, r11]"
  let ?vals = "[PyFloat (real_of_int r1 / 2), conv2radon r4, conv2radon r5,
        PyFloat (real_of_int r6 / 100), PyFloat (real_of_int r7 / 50),
        PyFloat (real_of_int r8), PyFloat (real_of_int r9)]"
  obtain proc where proc: "processor ?raw = Inr proc"
    using processor_12_Inr by blast
  have "\<forall>i<n. proc i = Some (?vals ! i)"
    using processor_12 [OF proc] assms by auto
  then have "set_loop proc [0 ..< n] (replicate n PyNone) = (None, take 0 (replicate n PyNone) @ map ((!) ?vals) [0 ..< n])"
    by (intro set_loop_upt) simp_all
  also have "map ((!) ?vals) [0 ..< n] = take n ?vals"
    using assms by (intro map_nth_take) simp
  finally have "set_loop proc [0 ..< n] (replicate n PyNone) = (None, take n ?vals)"
    by simp
  then show ?thesis
    using proc by (simp add: set_sensors_def getitem_def Sensors_init_def)
qed

lemma set_loop_result:
  "set_loop proc idxs data = (r, data') \<Longrightarrow>
     length data' = length data
     \<and> (r = None \<longrightarrow> (\<forall>i\<in>set idxs. i < length data \<and> proc i = Some (data' ! i)))
     \<and> (\<forall>i. i \<notin> set idxs \<longrightarrow> data' ! i = data ! i)"
proof (induction idxs arbitrary: data)
  case Nil
  then show ?case by simp
next
  case (Cons a idxs)
  show ?case
  proof (cases "proc a")
    case None
    with Cons.prems show ?thesis by auto
  next
    case (Some v)
    show ?thesis
    proof (cases "a < length data")
      case False
      with Some Cons.prems show ?thesis by auto
    next
      case True
      with Some Cons.prems have rec: "set_loop proc idxs (data[a := v]) = (r, data')"
        by simp
      note ih = Cons.IH [OF rec]
      have "proc a = Some (data' ! a)" if "r = None"
      proof (cases "a \<in> set idxs")
        case True
        with ih that show ?thesis by simp
      next
        case False
        with ih have "data' ! a = data[a := v] ! a" by blast
        with \<open>a < length data\<close> Some show ?thesis by simp
      qed
      with ih True show ?thesis by auto
    qed
  qed
qed

lemma processor_not_None:
  "processor rawData = Inr proc \<Longrightarrow> proc i \<noteq> Some PyNone"
  by (auto simp: processor_def bnd_def getitem_def conv2radon_def split: if_splits)

lemma set_sensors_success:
  assumes "set_sensors (Sensors_init n) rawData = (None, sensors)"
  shows "numberOfSensors sensors = n \<and> length (sensor_data sensors) = n
    \<and> PyNone \<notin> set (sensor_data sensors) \<and> sensor_units sensors = take n unit_table"
proof -
  from assms obtain v where v: "getitem rawData 0 = Inr v"
    by (auto simp: set_sensors_def split: sum.splits)
  with assms have v1: "v = 1"
    by (auto simp: set_sensors_def Let_def split: if_splits)
  with assms v obtain proc where proc: "processor rawData = Inr proc"
    by (auto simp: set_sensors_def Let_def split: sum.splits)
  obtain r data where loop: "set_loop proc [0 ..< n] (replicate n PyNone) = (r, data)"
    by (cases "set_loop proc [0 ..< n] (replicate n PyNone)")
  with assms v v1 proc have r: "r = None"
    and s: "sensors = (Sensors_init n)\<lparr>sensor_version := PyInt 1, sensor_data := data\<rparr>"
    by (auto simp: set_sensors_def Let_def Sensors_init_def)
  from set_loop_result [OF loop] r have len: "length data = n"
    and all: "\<forall>i<n. proc i = Some (data ! i)"
    by auto
  have "PyNone \<notin> set data"
  proof
    assume "PyNone \<in> set data"
    then obtain i where "i < n" "data ! i = PyNone"
      using len by (auto simp: in_set_conv_nth)
    with all have "proc i = Some PyNone" by auto
    with processor_not_None [OF proc] show False by blast
  qed
  with len s show ?thesis by (simp add: Sensors_init_def)
qed



lemma decode_frame_version_1:
  assumes "length frame = 20" "frame ! 0 = 1" "n \<le> 7"
  shows "decode n frame = Inr
     \<lparr> sensor_version = PyInt 1, numberOfSensors = n,
       sensor_data = take n
         [PyFloat (real_of_int (uint (frame ! 1)) / 2),
          conv2radon (le_uint [frame ! 4, frame ! 5]),
          conv2radon (le_uint [frame ! 6, frame ! 7]),
          PyFloat (real_of_int (le_uint [frame ! 8, frame ! 9]) / 100),
          PyFloat (real_of_int (le_uint [frame ! 10, frame ! 11]) / 50),
          PyFloat (real_of_int (le_uint [frame ! 12, frame ! 13])),
          PyFloat (real_of_int (le_uint [frame ! 14, frame ! 15]))],
       sensor_units = take n unit_table \<rparr>"
  unfolding decode_def unpack_20 [OF assms(1)] bnd_def
  using assms(2) set_sensors_version_1 [OF assms(3)] by simp


text \<open>
  Claim C1, as stated, fails. The frame of the claim, \<^verbatim>\<open>01 00 00 00\<close> and the words
  0064, 0000, 0000, 0032, 0190, 03E8, 0190, 0096 (20 bytes, not 16), decodes for seven
  sensors to 0.0, 100, 0, 0.0, 1.0, 400.0 and 1000.0, not to 50.0, 50, 0, 4.0, 20.0, 400
  and 150: the humidity is taken from the second byte, not from a word, and the other
  values from the words 0 to 5.
\<close>

theorem decode_claimed_frame:
  "decode 7 [1, 0, 0, 0, 0x64, 0, 0, 0, 0, 0, 0x32, 0, 0x90, 1, 0xE8, 3, 0x90, 1, 0x96, 0] =
     Inr \<lparr> sensor_version = PyInt 1, numberOfSensors = 7,
           sensor_data = [PyFloat 0, PyInt 100, PyInt 0, PyFloat 0, PyFloat 1,
                          PyFloat 400, PyFloat 1000],
           sensor_units = [''%rH'', ''Bq/m3'', ''Bq/m3'', ''degC'', ''hPa'', ''ppm'', ''ppb''] \<rparr>"
  by (simp add: decode_frame_version_1 conv2radon_def unit_table_def)

text \<open>
  Claim C1, amended. For a frame of 20 bytes whose first byte is 1, and at most seven
  sensors, the values are, in order and cut to the number of sensors: byte 1 divided by 2;
  \<open>conv2radon\<close> of word 0; \<open>conv2radon\<close> of word 1; word 2 divided by 100; word 3 divided
  by 50; word 4 and word 5 as floats. Word \<open>i\<close> is the little-endian value of the bytes
  \<open>4 + 2 * i\<close> and \<open>5 + 2 * i\<close>.
\<close>

theorem decode_version_1:
  "length frame = 20 \<and> frame ! 0 = 1 \<and> n \<le> 7 \<longrightarrow>
     decode n frame = Inr
       \<lparr> sensor_version = PyInt 1, numberOfSensors = n,
         sensor_data = take n
           [PyFloat (real_of_int (uint (frame ! 1)) / 2),
            conv2radon (le_uint [frame ! 4, frame ! 5]),
            conv2radon (le_uint [frame ! 6, frame ! 7]),
            PyFloat (real_of_int (le_uint [frame ! 8, frame ! 9]) / 100),
            PyFloat (real_of_int (le_uint [frame ! 10, frame ! 11]) / 50),
            PyFloat (real_of_int (le_uint [frame ! 12, frame ! 13])),
            PyFloat (real_of_int (le_uint [frame ! 14, frame ! 15]))],
         sensor_units = take n unit_table \<rparr>"
  using decode_frame_version_1 by blast

theorem decode_version_1_witness:
  "decode 7 [1, 0x64, 0, 0, 0x32, 0, 0, 0, 0x90, 1, 0xE8, 3, 0x90, 1, 0x96, 0, 0, 0, 0, 0] =
     Inr \<lparr> sensor_version = PyInt 1, numberOfSensors = 7,
           sensor_data = [PyFloat 50, PyInt 50, PyInt 0, PyFloat 4, PyFloat 20,
                          PyFloat 400, PyFloat 150],
           sensor_units = [''%rH'', ''Bq/m3'', ''Bq/m3'', ''degC'', ''hPa'', ''ppm'', ''ppb''] \<rparr>"
  using decode_version_1
    [of "[1, 0x64, 0, 0, 0x32, 0, 0, 0, 0x90, 1, 0xE8, 3, 0x90, 1, 0x96, 0, 0, 0, 0, 0]" 7]
  by (simp add: conv2radon_def unit_table_def)




section \<open>Properties of the session\<close>

text \<open>The loop of \<open>search\<close> passes over scans that return and hold no match.\<close>

lemma search_skip:
  assumes "searchCount + j \<le> 50"
    and "\<forall>k<j. \<exists>devices. scan tr (t + k) = Some devices \<and> find_dev sn devices = Inr None"
  shows "search tr sn searchCount t = search tr sn (searchCount + j) (t + j)"
  using assms
proof (induction j arbitrary: searchCount t)
  case 0
  then show ?case by simp
next
  case (Suc j)
  from Suc.prems(2) [rule_format, of 0]
  obtain ds where ds: "scan tr t = Some ds" "find_dev sn ds = Inr None"
    by auto
  have "\<forall>k<j. \<exists>devices. scan tr (Suc t + k) = Some devices \<and> find_dev sn devices = Inr None"
    using Suc.prems(2) by (metis Suc_less_eq add_Suc_shift)
  then have "search tr sn (Suc searchCount) (Suc t)
      = search tr sn (Suc searchCount + j) (Suc t + j)"
    using Suc.IH [of "Suc searchCount" "Suc t"] Suc.prems(1) by simp
  with ds Suc.prems(1) show ?case
    by (simp add: search.simps [of tr sn searchCount t])
qed

lemma search_found:
  assumes "searchCount + j < 50"
    and "\<forall>k<j. \<exists>devices. scan tr (t + k) = Some devices \<and> find_dev sn devices = Inr None"
    and "scan tr (t + j) = Some devices" "find_dev sn devices = Inr (Some a)"
  shows "search tr sn searchCount t = (Inr (Some a), t + j + 1)"
proof -
  have "search tr sn searchCount t = search tr sn (searchCount + j) (t + j)"
    using assms(1,2) by (intro search_skip) simp_all
  also have "\<dots> = (Inr (Some a), t + j + 1)"
    using assms(1,3,4) by (simp add: search.simps [of tr sn "searchCount + j"])
  finally show ?thesis .
qed

lemma search_exhausted:
  assumes "searchCount \<le> 50"
    and "\<forall>k<50 - searchCount.
      \<exists>devices. scan tr (t + k) = Some devices \<and> find_dev sn devices = Inr None"
  shows "search tr sn searchCount t = (Inr None, t + (50 - searchCount))"
proof -
  have "search tr sn searchCount t
      = search tr sn (searchCount + (50 - searchCount)) (t + (50 - searchCount))"
    using assms by (intro search_skip) simp_all
  also have "\<dots> = (Inr None, t + (50 - searchCount))"
    using assms(1) by (simp add: search.simps [of tr sn 50])
  finally show ?thesis .
qed

lemma search_clock:
  "search tr sn searchCount t = (r, t') \<Longrightarrow> t \<le> t' \<and> t' + searchCount \<le> t + max 50 searchCount"
proof (induction tr sn searchCount t rule: search.induct)
  case (1 tr sn searchCount t)
  show ?case
  proof (cases "searchCount < 50")
    case False
    with "1.prems" show ?thesis by (simp add: search.simps)
  next
    case True
    note lt = this
    show ?thesis
    proof (cases "scan tr t")
      case None
      with lt "1.prems" show ?thesis by (auto simp: search.simps)
    next
      case (Some devices)
      note sc = this
      show ?thesis
      proof (cases "find_dev sn devices")
        case (Inl e)
        with lt sc "1.prems" show ?thesis by (auto simp: search.simps)
      next
        case (Inr found)
        show ?thesis
        proof (cases found)
          case (Some a)
          with lt sc Inr "1.prems" show ?thesis by (auto simp: search.simps)
        next
          case None
          with lt sc Inr "1.prems" have "search tr sn (Suc searchCount) (Suc t) = (r, t')"
            by (simp add: search.simps)
          from "1.IH" [OF lt sc Inr None this] lt show ?thesis by simp
        qed
      qed
    qed
  qed
qed







lemma find_dev_no_match:
  "\<forall>d\<in>set devices. \<exists>v. parseSerialNumber (getValueText d) = Inr v \<and> v \<noteq> PyInt sn
    \<Longrightarrow> find_dev sn devices = Inr None"
  by (induction devices) auto

lemma find_dev_first_match:
  "\<forall>d\<in>set before. \<exists>v. parseSerialNumber (getValueText d) = Inr v \<and> v \<noteq> PyInt sn
    \<Longrightarrow> parseSerialNumber (getValueText dev) = Inr (PyInt sn)
    \<Longrightarrow> find_dev sn (before @ dev # rest) = Inr (Some (addr dev))"
  by (induction before) auto

lemma discover_found:
  assumes "MacAddr self = None" "j < 50"
    and "\<forall>k<j. \<exists>devices. scan tr (t + k) = Some devices \<and> find_dev (SN self) devices = Inr None"
    and "scan tr (t + j) = Some devices" "find_dev (SN self) devices = Inr (Some a)"
  shows "discover tr (t, self) = (None, t + j + 1, self\<lparr>MacAddr := Some a\<rparr>)"
    and "connect tr (t, self) = connect tr (t + j + 1, self\<lparr>MacAddr := Some a\<rparr>)"
proof -
  have "search tr (SN self) 0 t = (Inr (Some a), t + j + 1)"
    using assms by (intro search_found) simp_all
  then show d: "discover tr (t, self) = (None, t + j + 1, self\<lparr>MacAddr := Some a\<rparr>)"
    using assms(1) by (simp add: discover_def)
  have "discover tr (t + j + 1, self\<lparr>MacAddr := Some a\<rparr>)
      = (None, t + j + 1, self\<lparr>MacAddr := Some a\<rparr>)"
    by (simp add: discover_def)
  with d show "connect tr (t, self) = connect tr (t + j + 1, self\<lparr>MacAddr := Some a\<rparr>)"
    by (simp add: connect_def)
qed

lemma discover_exhausted:
  assumes "MacAddr self = None"
    and "\<forall>k<50. \<exists>devices. scan tr (t + k) = Some devices \<and> find_dev (SN self) devices = Inr None"
  shows "connect tr (t, self) = (Some (SystemExit DeviceNotFound), t + 50, self)"
proof -
  have "search tr (SN self) 0 t = (Inr None, t + (50 - 0))"
    using assms(2) by (intro search_exhausted) simp_all
  then show ?thesis
    using assms(1) by (simp add: connect_def discover_def)
qed

lemma discover_clock:
  assumes "discover tr (t, self) = (r, t', self')"
  shows "t \<le> t' \<and> t' \<le> t + 50"
proof (cases "MacAddr self")
  case (Some a)
  with assms show ?thesis by (simp add: discover_def)
next
  case None
  obtain res t1 where s: "search tr (SN self) 0 t = (res, t1)"
    by (cases "search tr (SN self) 0 t")
  with assms None have "t' = t1"
    by (auto simp: discover_def split: sum.splits option.splits)
  with search_clock [OF s] show ?thesis by simp
qed


lemma discover_fields:
  "discover tr (t, self) = (r, t', self') \<Longrightarrow>
     numSensors self' = numSensors self \<and> SN self' = SN self \<and> uuid self' = uuid self
     \<and> periph self' = periph self \<and> curr_val_char self' = curr_val_char self"
  by (auto simp: discover_def split: prod.splits sum.splits option.splits if_splits)

lemma resolve_char_fields:
  "resolve_char tr p (t, self) = (r, t', self') \<Longrightarrow>
     numSensors self' = numSensors self \<and> SN self' = SN self \<and> uuid self' = uuid self
     \<and> periph self' = periph self \<and> MacAddr self' = MacAddr self"
  by (auto simp: resolve_char_def split: option.splits list.splits if_splits)

lemma establish_fields:
  "establish tr (t, self) = (r, t', self') \<Longrightarrow>
     numSensors self' = numSensors self \<and> SN self' = SN self \<and> uuid self' = uuid self
     \<and> MacAddr self' = MacAddr self"
  by (auto simp: establish_def split: option.splits dest!: resolve_char_fields)

lemma establish_paired:
  "establish tr (t, self) = (r, t', self') \<Longrightarrow>
     (periph self = None \<longrightarrow> curr_val_char self = None) \<Longrightarrow>
     (periph self' = None \<longrightarrow> curr_val_char self' = None)"
  by (auto simp: establish_def split: option.splits dest!: resolve_char_fields)

lemma connect_cases:
  assumes "connect tr s = (r, s')"
  obtains e where "discover tr s = (Some e, s')" "r = Some e"
  | s1 e where "discover tr s = (None, s1)" "establish tr s1 = (Some e, s')"
      "r = Some (if is_Exception e then ConnectionFailed else e)"
  | s1 where "discover tr s = (None, s1)" "establish tr s1 = (None, s')" "r = None"
  using assms by (auto simp: connect_def split: prod.splits option.splits)

lemma connect_fields:
  assumes "connect tr (t, self) = (r, t', self')"
  shows "numSensors self' = numSensors self \<and> SN self' = SN self \<and> uuid self' = uuid self"
  using assms
proof (cases rule: connect_cases)
  case (1 e)
  then show ?thesis using discover_fields by blast
next
  case (2 s1 e)
  then show ?thesis using discover_fields [of tr t self _ "fst s1" "snd s1"]
      establish_fields [of tr "fst s1" "snd s1"] by simp
next
  case (3 s1)
  then show ?thesis using discover_fields [of tr t self _ "fst s1" "snd s1"]
      establish_fields [of tr "fst s1" "snd s1"] by simp
qed

lemma connect_paired:
  assumes "connect tr (t, self) = (r, t', self')"
    and "periph self = None \<longrightarrow> curr_val_char self = None"
  shows "periph self' = None \<longrightarrow> curr_val_char self' = None"
  using assms(1)
proof (cases rule: connect_cases)
  case (1 e)
  then show ?thesis using discover_fields assms(2) by metis
next
  case (2 s1 e)
  then show ?thesis using discover_fields [of tr t self _ "fst s1" "snd s1"]
      establish_paired [of tr "fst s1" "snd s1"] assms(2) by simp
next
  case (3 s1)
  then show ?thesis using discover_fields [of tr t self _ "fst s1" "snd s1"]
      establish_paired [of tr "fst s1" "snd s1"] assms(2) by simp
qed

lemma read_session: "read tr (t, self) = (v, t', self') \<Longrightarrow> self' = self"
  by (auto simp: read_def split: option.splits sum.splits)

lemma disconnect_cases:
  assumes "disconnect tr (t, self) = (r, t', self')"
  obtains "periph self = None" "r = None" "t' = t" "self' = self"
  | p where "periph self = Some p" "\<not> periph_disconnect tr t p" "r = Some TransportError"
      "t' = Suc t" "self' = self"
  | p where "periph self = Some p" "periph_disconnect tr t p" "r = None"
      "t' = Suc t" "self' = self\<lparr>periph := None, curr_val_char := None\<rparr>"
proof (cases "periph self")
  case None
  with assms have "r = None" "t' = t" "self' = self"
    by (auto simp: disconnect_def)
  with None show ?thesis
    by (rule that(1))
next
  case (Some p)
  show ?thesis
  proof (cases "periph_disconnect tr t p")
    case True
    with Some assms have "r = None" "t' = Suc t"
      "self' = self\<lparr>periph := None, curr_val_char := None\<rparr>"
      by (auto simp: disconnect_def)
    with Some True show ?thesis
      by (rule that(3))
  next
    case False
    with Some assms have "r = Some TransportError" "t' = Suc t" "self' = self"
      by (auto simp: disconnect_def)
    with Some False show ?thesis
      by (rule that(2))
  qed
qed

lemma reachable_invariant:
  "reachable tr serial hasAirQuality s \<Longrightarrow>
     numSensors (snd s) = (if hasAirQuality then 7 else 4) \<and> SN (snd s) = serial
     \<and> (periph (snd s) = None \<longrightarrow> curr_val_char (snd s) = None)"
proof (induction rule: reachable.induct)
  case created
  show ?case by (simp add: WavePlus_init_def)
next
  case (connected s r s')
  then show ?case
    using connect_fields [of tr "fst s" "snd s" r "fst s'" "snd s'"]
      connect_paired [of tr "fst s" "snd s" r "fst s'" "snd s'"] by simp
next
  case (was_read s v s')
  then show ?case
    using read_session [of tr "fst s" "snd s" v "fst s'" "snd s'"] by simp
next
  case (disconnected s r s')
  from disconnected.hyps(2) have "disconnect tr (fst s, snd s) = (r, fst s', snd s')"
    by simp
  then show ?case
    using disconnected.IH by (cases rule: disconnect_cases) auto
qed

lemma read_reading:
  assumes "read tr (t, self) = (Inr sensors, s')"
  shows "length (sensor_data sensors) = numSensors self \<and> PyNone \<notin> set (sensor_data sensors)
     \<and> sensor_units sensors = take (numSensors self) unit_table"
proof -
  from assms obtain rawdata where "decode (numSensors self) rawdata = Inr sensors"
    by (auto simp: read_def split: option.splits sum.splits)
  then obtain raw where "set_sensors (Sensors_init (numSensors self)) raw = (None, sensors)"
    by (auto simp: decode_def bnd_def split: sum.splits prod.splits option.splits)
  then show ?thesis using set_sensors_success by blast
qed



lemma cycle_cases:
  assumes "cycle tr s = (p, r, s')"
  obtains e where "connect tr s = (Some e, s')" "p = None" "r = Some e"
  | s1 e where "connect tr s = (None, s1)" "read tr s1 = (Inl e, s')" "p = None" "r = Some e"
  | s1 s2 sensors where "connect tr s = (None, s1)" "read tr s1 = (Inr sensors, s2)"
      "disconnect tr s2 = (r, s')" "p = Some sensors"
proof -
  obtain r1 s1 where c: "connect tr s = (r1, s1)" by (cases "connect tr s")
  obtain v s2 where rd: "read tr s1 = (v, s2)" by (cases "read tr s1")
  obtain r3 s3 where d: "disconnect tr s2 = (r3, s3)" by (cases "disconnect tr s2")
  show ?thesis
  proof (cases r1)
    case (Some e)
    with c assms have "s' = s1" "p = None" "r = Some e" by (auto simp: cycle_def)
    with c Some that(1) show ?thesis by blast
  next
    case None
    note r1 = this
    show ?thesis
    proof (cases v)
      case (Inl e)
      with c r1 rd assms have "s' = s2" "p = None" "r = Some e" by (auto simp: cycle_def)
      with c r1 rd Inl that(2) show ?thesis by blast
    next
      case (Inr sensors)
      with c r1 rd d assms have "s' = s3" "p = Some sensors" "r = r3" by (auto simp: cycle_def)
      with c r1 rd d Inr that(3) show ?thesis by blast
    qed
  qed
qed

lemma cycle_reachable:
  assumes "reachable tr serial q s" "cycle tr s = (p, r, s')"
  shows "reachable tr serial q s'"
  using assms(2)
proof (cases rule: cycle_cases)
  case (1 e)
  with assms(1) show ?thesis by (blast intro: reachable.connected)
next
  case (2 s1 e)
  with assms(1) show ?thesis by (blast intro: reachable.connected reachable.was_read)
next
  case (3 s1 s2 sensors)
  with assms(1) show ?thesis
    by (blast intro: reachable.connected reachable.was_read reachable.disconnected)
qed

lemma cycle_reading:
  assumes "reachable tr serial q s" "cycle tr s = (Some sensors, r, s')"
  shows "length (sensor_data sensors) = (if q then 7 else 4)
     \<and> PyNone \<notin> set (sensor_data sensors)
     \<and> sensor_units sensors = take (if q then 7 else 4) unit_table"
  using assms(2)
proof (cases rule: cycle_cases)
  case (3 s1 s2 sensors')
  then have rd: "read tr (fst s1, snd s1) = (Inr sensors, s2)" by simp
  from 3 assms(1) have "reachable tr serial q s1" by (blast intro: reachable.connected)
  then have "numSensors (snd s1) = (if q then 7 else 4)"
    using reachable_invariant by blast
  with read_reading [OF rd] show ?thesis by simp
qed simp_all

lemma poll_loop_readings:
  assumes "reachable tr serial q s"
    and "\<forall>x\<in>set out. length (sensor_data x) = (if q then 7 else 4)
       \<and> PyNone \<notin> set (sensor_data x) \<and> sensor_units x = take (if q then 7 else 4) unit_table"
    and "poll_loop fuel tr s out = Some (e, s1, out1)"
  shows "reachable tr serial q s1 \<and> (\<forall>x\<in>set out1. length (sensor_data x) = (if q then 7 else 4)
       \<and> PyNone \<notin> set (sensor_data x) \<and> sensor_units x = take (if q then 7 else 4) unit_table)"
  using assms
proof (induction fuel arbitrary: s out)
  case 0
  then show ?case by simp
next
  case (Suc fuel)
  obtain p r s2 where c: "cycle tr s = (p, r, s2)"
    by (cases "cycle tr s")
  have reach: "reachable tr serial q s2"
    using cycle_reachable [OF Suc.prems(1) c] .
  have out': "\<forall>x\<in>set (out @ printed p). length (sensor_data x) = (if q then 7 else 4)
       \<and> PyNone \<notin> set (sensor_data x) \<and> sensor_units x = take (if q then 7 else 4) unit_table"
  proof (cases p)
    case None
    with Suc.prems(2) show ?thesis by (simp add: printed_def)
  next
    case (Some sensors)
    with c cycle_reading [OF Suc.prems(1), of sensors r s2] Suc.prems(2) show ?thesis
      by (simp add: printed_def)
  qed
  show ?case
  proof (cases r)
    case None
    with c Suc.prems(3) have "poll_loop fuel tr s2 (out @ printed p) = Some (e, s1, out1)"
      by simp
    from Suc.IH [OF reach out' this] show ?thesis .
  next
    case (Some e')
    with c Suc.prems(3) have "s1 = s2" "out1 = out @ printed p" by simp_all
    with reach out' show ?thesis by simp
  qed
qed

lemma resolve_char_result:
  "resolve_char tr p (t, self) = (r, t', self') \<Longrightarrow>
     (r = None \<longrightarrow> curr_val_char self' \<noteq> None) \<and> (\<forall>e. r = Some e \<longrightarrow> is_Exception e)"
  by (auto simp: resolve_char_def split: option.splits list.splits if_splits)

lemma establish_result:
  assumes "establish tr (t, self) = (r, t', self')"
  shows "(r = None \<longrightarrow> periph self' \<noteq> None \<and> curr_val_char self' \<noteq> None)
     \<and> (\<forall>e. r = Some e \<longrightarrow> is_Exception e)"
proof (cases "periph self")
  case (Some p)
  with assms have rc: "resolve_char tr p (t, self) = (r, t', self')"
    by (simp add: establish_def)
  from resolve_char_fields [OF rc] Some have "periph self' \<noteq> None"
    by simp
  with resolve_char_result [OF rc] show ?thesis
    by simp
next
  case None
  show ?thesis
  proof (cases "Peripheral tr t (MacAddr self)")
    case None
    with \<open>periph self = None\<close> assms show ?thesis
      by (auto simp: establish_def)
  next
    case (Some p)
    with \<open>periph self = None\<close> assms
    have rc: "resolve_char tr p (Suc t, self\<lparr>periph := Some p\<rparr>) = (r, t', self')"
      by (simp add: establish_def)
    from resolve_char_fields [OF rc] have "periph self' \<noteq> None"
      by simp
    with resolve_char_result [OF rc] show ?thesis
      by simp
  qed
qed

text \<open>What \<^verbatim>\<open>connect\<close> returns once the first half has stored an address.\<close>

lemma connect_after_discover:
  assumes "discover tr (t, self) = (None, t1, self1)"
    and "connect tr (t, self) = (r, t', self')"
  shows "MacAddr self' = MacAddr self1 \<and> (r = None \<or> r = Some ConnectionFailed)
     \<and> (r = None \<longrightarrow> periph self' \<noteq> None \<and> curr_val_char self' \<noteq> None)"
proof -
  obtain r2 where e: "establish tr (t1, self1) = (r2, t', self')"
    and r: "r = (case r2 of None \<Rightarrow> None
      | Some e \<Rightarrow> Some (if is_Exception e then ConnectionFailed else e))"
    using assms by (cases "establish tr (t1, self1)") (auto simp: connect_def split: option.splits)
  from establish_fields [OF e] have "MacAddr self' = MacAddr self1"
    by simp
  moreover from establish_result [OF e] r have "r = None \<or> r = Some ConnectionFailed"
    by (cases r2) auto
  moreover from establish_result [OF e] r
  have "r = None \<longrightarrow> periph self' \<noteq> None \<and> curr_val_char self' \<noteq> None"
    by (cases r2) auto
  ultimately show ?thesis
    by blast
qed


text \<open>
  Claim C9. A frame that decodes gives as many values as the number of sensors asked for,
  none of them \<^verbatim>\<open>None\<close>, with the units of the table cut to that number. An object
  made with the flag has 7 sensors, one made without it 4. In every session that the
  program can reach, a reading that \<^verbatim>\<open>read\<close> returns has that number of values and
  units, and so has every reading that the main program has printed when it ends.
\<close>

theorem reading_fields:
  "(decode n rawdata = Inr sensors \<longrightarrow>
      length (sensor_data sensors) = n \<and> PyNone \<notin> set (sensor_data sensors)
      \<and> sensor_units sensors = take n unit_table) \<and>
   getNumSensors (WavePlus_init serial hasAirQuality) = (if hasAirQuality then 7 else 4) \<and>
   (reachable tr serial hasAirQuality s \<and> read tr s = (Inr sensors, s') \<longrightarrow>
      length (sensor_data sensors) = (if hasAirQuality then 7 else 4)
      \<and> PyNone \<notin> set (sensor_data sensors)
      \<and> sensor_units sensors = take (if hasAirQuality then 7 else 4) unit_table) \<and>
   (main fuel tr serial hasAirQuality = Some res \<longrightarrow>
      (\<forall>x\<in>set (readings res).
         length (sensor_data x) = (if hasAirQuality then 7 else 4)
         \<and> PyNone \<notin> set (sensor_data x)
         \<and> sensor_units x = take (if hasAirQuality then 7 else 4) unit_table))"
proof (intro conjI impI)
  assume "decode n rawdata = Inr sensors"
  then obtain raw where "set_sensors (Sensors_init n) raw = (None, sensors)"
    by (auto simp: decode_def bnd_def split: sum.splits prod.splits option.splits)
  from set_sensors_success [OF this]
  show "length (sensor_data sensors) = n" "PyNone \<notin> set (sensor_data sensors)"
    "sensor_units sensors = take n unit_table"
    by simp_all
next
  show "getNumSensors (WavePlus_init serial hasAirQuality) = (if hasAirQuality then 7 else 4)"
    by (simp add: getNumSensors_def WavePlus_init_def)
next
  assume h: "reachable tr serial hasAirQuality s \<and> read tr s = (Inr sensors, s')"
  then have rd: "read tr (fst s, snd s) = (Inr sensors, s')" by simp
  from h have "numSensors (snd s) = (if hasAirQuality then 7 else 4)"
    using reachable_invariant by blast
  with read_reading [OF rd]
  show "length (sensor_data sensors) = (if hasAirQuality then 7 else 4)"
    "PyNone \<notin> set (sensor_data sensors)"
    "sensor_units sensors = take (if hasAirQuality then 7 else 4) unit_table"
    by simp_all
next
  assume m: "main fuel tr serial hasAirQuality = Some res"
  then obtain e s1 where
    "poll_loop fuel tr (0, WavePlus_init serial hasAirQuality) [] = Some (e, s1, readings res)"
    by (auto simp: main_def run_def split: option.splits)
  from poll_loop_readings [OF reachable.created _ this]
  show "\<forall>x\<in>set (readings res).
         length (sensor_data x) = (if hasAirQuality then 7 else 4)
         \<and> PyNone \<notin> set (sensor_data x)
         \<and> sensor_units x = take (if hasAirQuality then 7 else 4) unit_table"
    by simp
qed


theorem reading_fields_witness:
  "main 1
      \<lparr>scan = (\<lambda>t. Some [\<lparr>addr = ''a4:da:32:00:00:01'', getValueText = Some ''340301000000''\<rparr>]),
       Peripheral = (\<lambda>t a. Some 0), getCharacteristics = (\<lambda>t p u. Some [0]),
       char_read = (\<lambda>t c. Some [1, 0x64, 0, 0, 0x32, 0, 0, 0, 0x90, 1, 0xE8, 3, 0x90, 1, 0x96, 0, 0, 0, 0, 0]),
       periph_disconnect = (\<lambda>t p. False)\<rparr>
      1 True
     = Some \<lparr>readings =
         [\<lparr>sensor_version = PyInt 1, numberOfSensors = 7,
          sensor_data = [PyFloat 50, PyInt 50, PyInt 0, PyFloat 4, PyFloat 20, PyFloat 400,
            PyFloat 150],
          sensor_units = [''%rH'', ''Bq/m3'', ''Bq/m3'', ''degC'', ''hPa'', ''ppm'', ''ppb'']\<rparr>],
        raised = TransportError, caught = True,
        cleanup = (Some TransportError, 6,
          \<lparr>periph = Some 0, curr_val_char = Some 0, MacAddr = Some ''a4:da:32:00:00:01'', SN = 1,
           uuid = ''b42e2a68-ade7-11e4-89d3-123b93f75cba'', numSensors = 7\<rparr>)\<rparr>
   \<and> length [PyFloat 50, PyInt 50, PyInt 0, PyFloat 4, PyFloat 20, PyFloat 400, PyFloat 150]
     = (7 :: nat)"
proof -
  let ?tr = "\<lparr>scan = (\<lambda>t. Some [\<lparr>addr = ''a4:da:32:00:00:01'', getValueText = Some ''340301000000''\<rparr>]),
       Peripheral = (\<lambda>t a. Some 0), getCharacteristics = (\<lambda>t p u. Some [0]),
       char_read = (\<lambda>t c. Some [1, 0x64, 0, 0, 0x32, 0, 0, 0, 0x90, 1, 0xE8, 3, 0x90, 1, 0x96, 0, 0, 0, 0, 0]),
       periph_disconnect = (\<lambda>t p. False)\<rparr>"
  let ?wc = "\<lparr>periph = Some 0, curr_val_char = Some 0, MacAddr = Some ''a4:da:32:00:00:01'', SN = 1,
        uuid = ''b42e2a68-ade7-11e4-89d3-123b93f75cba'', numSensors = 7\<rparr>"
  let ?reading = "\<lparr>sensor_version = PyInt 1, numberOfSensors = 7,
        sensor_data = [PyFloat 50, PyInt 50, PyInt 0, PyFloat 4, PyFloat 20, PyFloat 400,
          PyFloat 150],
        sensor_units = [''%rH'', ''Bq/m3'', ''Bq/m3'', ''degC'', ''hPa'', ''ppm'', ''ppb'']\<rparr>"
  let ?res = "\<lparr>readings = [?reading], raised = TransportError, caught = True,
    cleanup = (Some TransportError, 6, ?wc)\<rparr>"
  have c: "connect ?tr (0, WavePlus_init 1 True) = (None, 3, ?wc)"
    by (simp add: connect_def discover_def establish_def resolve_char_def search.simps WavePlus_init_def
        parseSerialNumber_def bnd_def getitem_def isspace_def hexval_def hexdigits_def)
  have d: "decode 7 [1, 0x64, 0, 0, 0x32, 0, 0, 0, 0x90, 1, 0xE8, 3, 0x90, 1, 0x96, 0, 0, 0, 0, 0] = Inr ?reading"
    by (simp add: decode_frame_version_1 conv2radon_def unit_table_def)
  have rd: "read ?tr (3, ?wc) = (Inr ?reading, 4, ?wc)"
    by (simp add: read_def d)
  have m: "main 1 ?tr 1 True = Some ?res"
    by (simp add: main_def run_def cycle_def c rd disconnect_def printed_def)
  have r0: "reachable ?tr 1 True (0, WavePlus_init 1 True)"
    by (rule reachable.created)
  have r: "reachable ?tr 1 True (3, ?wc)"
    by (rule reachable.connected [OF r0 c])
  show ?thesis
    using m d rd r
      reading_fields [where n = 7 and rawdata = "[1, 0x64, 0, 0, 0x32, 0, 0, 0, 0x90, 1, 0xE8, 3, 0x90, 1, 0x96, 0, 0, 0, 0, 0]"
        and sensors = ?reading and tr = ?tr and serial = 1 and hasAirQuality = True
        and s = "(3, ?wc)" and s' = "(4, ?wc)" and fuel = 1 and res = ?res]
    by simp
qed

text \<open>
  Claim C6, as stated, fails. A scan returns two devices: the first advertises the two
  bytes \<^verbatim>\<open>34 03\<close> and nothing more, the second is the device looked for. Parsing the
  first raises IndexError, which ends \<^verbatim>\<open>connect\<close> with no address stored.
\<close>

theorem connect_parse_raises:
  "parseSerialNumber (Some ''340301000000'') = Inr (PyInt 1)
   \<and> connect
      \<lparr>scan = (\<lambda>t. Some [\<lparr>addr = ''00:00:00:00:00:02'', getValueText = Some ''3403''\<rparr>,
        \<lparr>addr = ''a4:da:32:00:00:01'', getValueText = Some ''340301000000''\<rparr>]),
       Peripheral = (\<lambda>t a. Some 0), getCharacteristics = (\<lambda>t p u. Some [0]),
       char_read = (\<lambda>t c. Some [1, 0x64, 0, 0, 0x32, 0, 0, 0, 0x90, 1, 0xE8, 3, 0x90, 1, 0x96, 0, 0, 0, 0, 0]),
       periph_disconnect = (\<lambda>t p. True)\<rparr>
      (0, WavePlus_init 1 False)
     = (Some IndexError, 1, WavePlus_init 1 False)"
  by (simp add: connect_def discover_def establish_def resolve_char_def search.simps WavePlus_init_def
      parseSerialNumber_def bnd_def getitem_def isspace_def hexval_def hexdigits_def)

text \<open>
  Claim C6, amended. The first half of \<^verbatim>\<open>connect\<close> makes at most 50 scans. When no
  address is stored, the scans before scan \<open>j\<close> (with \<open>j < 50\<close>) return and hold only
  devices that parse to something other than the serial number looked for, and scan
  \<open>j\<close> returns such devices followed by one that parses to that serial number, then
  \<^verbatim>\<open>connect\<close> stores the address of that device after \<open>j + 1\<close> scans and goes on as a
  call with the address stored does: whatever it returns, the object holds that address;
  it returns normally or raises \<open>ConnectionFailed\<close>, nothing else; when it returns
  normally the connection and the characteristic are set. With no connection held before,
  it calls the library's \<^verbatim>\<open>Peripheral\<close> with that address right after the scans: when that
  call and \<^verbatim>\<open>getCharacteristics\<close> return, \<^verbatim>\<open>connect\<close> returns with the handles they
  gave, and when \<^verbatim>\<open>Peripheral\<close> raises, \<^verbatim>\<open>connect\<close> raises \<open>ConnectionFailed\<close> with
  the address stored. When all 50 scans return and hold only devices that
  parse to something else, \<^verbatim>\<open>connect\<close> ends in the exit with the diagnostic of a device
  not found; \<^verbatim>\<open>except Exception\<close> does not catch it, so it ends the program, with no
  reading printed.
\<close>

theorem connect_discovery:
  "(discover tr (t, self) = (r, t', self') \<longrightarrow> t \<le> t' \<and> t' \<le> t + 50) \<and>
   (MacAddr self = None \<and> j < 50
    \<and> (\<forall>k<j. \<exists>devices. scan tr (t + k) = Some devices
          \<and> (\<forall>d\<in>set devices. \<exists>v. parseSerialNumber (getValueText d) = Inr v
                \<and> v \<noteq> PyInt (SN self)))
    \<and> scan tr (t + j) = Some (before @ dev # rest)
    \<and> (\<forall>d\<in>set before. \<exists>v. parseSerialNumber (getValueText d) = Inr v \<and> v \<noteq> PyInt (SN self))
    \<and> parseSerialNumber (getValueText dev) = Inr (PyInt (SN self)) \<longrightarrow>
      discover tr (t, self) = (None, t + j + 1, self\<lparr>MacAddr := Some (addr dev)\<rparr>)
      \<and> connect tr (t, self) = connect tr (t + j + 1, self\<lparr>MacAddr := Some (addr dev)\<rparr>)
      \<and> (connect tr (t, self) = (res, tc, selfc) \<longrightarrow>
            MacAddr selfc = Some (addr dev)
            \<and> (res = None \<or> res = Some ConnectionFailed)
            \<and> (res = None \<longrightarrow> periph selfc \<noteq> None \<and> curr_val_char selfc \<noteq> None))
      \<and> (periph self = None \<and> curr_val_char self = None
          \<and> Peripheral tr (t + j + 1) (Some (addr dev)) = Some p
          \<and> getCharacteristics tr (t + j + 2) p (uuid self) = Some (c # cs) \<longrightarrow>
            connect tr (t, self) =
              (None, t + j + 3,
               self\<lparr>MacAddr := Some (addr dev), periph := Some p, curr_val_char := Some c\<rparr>))
      \<and> (periph self = None \<and> Peripheral tr (t + j + 1) (Some (addr dev)) = None \<longrightarrow>
            connect tr (t, self) =
              (Some ConnectionFailed, t + j + 2, self\<lparr>MacAddr := Some (addr dev)\<rparr>))) \<and>
   (MacAddr self = None
    \<and> (\<forall>k<50. \<exists>devices. scan tr (t + k) = Some devices
          \<and> (\<forall>d\<in>set devices. \<exists>v. parseSerialNumber (getValueText d) = Inr v
                \<and> v \<noteq> PyInt (SN self))) \<longrightarrow>
      connect tr (t, self) = (Some (SystemExit DeviceNotFound), t + 50, self)
      \<and> run (Suc fuel) tr (t, self) =
          Some \<lparr>readings = [], raised = SystemExit DeviceNotFound, caught = False,
                 cleanup = disconnect tr (t + 50, self)\<rparr>)"
proof (intro conjI impI)
  assume "discover tr (t, self) = (r, t', self')"
  from discover_clock [OF this] show "t \<le> t'" "t' \<le> t + 50"
    by simp_all
next
  assume h: "MacAddr self = None \<and> j < 50
    \<and> (\<forall>k<j. \<exists>devices. scan tr (t + k) = Some devices
          \<and> (\<forall>d\<in>set devices. \<exists>v. parseSerialNumber (getValueText d) = Inr v
                \<and> v \<noteq> PyInt (SN self)))
    \<and> scan tr (t + j) = Some (before @ dev # rest)
    \<and> (\<forall>d\<in>set before. \<exists>v. parseSerialNumber (getValueText d) = Inr v \<and> v \<noteq> PyInt (SN self))
    \<and> parseSerialNumber (getValueText dev) = Inr (PyInt (SN self))"
  then have earlier: "\<forall>k<j. \<exists>devices. scan tr (t + k) = Some devices
      \<and> find_dev (SN self) devices = Inr None"
    using find_dev_no_match by blast
  from h have found: "find_dev (SN self) (before @ dev # rest) = Inr (Some (addr dev))"
    using find_dev_first_match by blast
  from h earlier found
  show d: "discover tr (t, self) = (None, t + j + 1, self\<lparr>MacAddr := Some (addr dev)\<rparr>)"
    by (intro discover_found(1)) simp_all
  from h earlier found
  show "connect tr (t, self) = connect tr (t + j + 1, self\<lparr>MacAddr := Some (addr dev)\<rparr>)"
    by (intro discover_found(2)) simp_all
  {
    assume c: "connect tr (t, self) = (res, tc, selfc)"
    from connect_after_discover [OF d c]
    show "MacAddr selfc = Some (addr dev)" "res = None \<or> res = Some ConnectionFailed"
      by simp_all
    assume "res = None"
    with connect_after_discover [OF d c]
    show "periph selfc \<noteq> None" "curr_val_char selfc \<noteq> None"
      by simp_all
  }
  {
    assume "periph self = None \<and> curr_val_char self = None
          \<and> Peripheral tr (t + j + 1) (Some (addr dev)) = Some p
          \<and> getCharacteristics tr (t + j + 2) p (uuid self) = Some (c # cs)"
    then show "connect tr (t, self) =
              (None, t + j + 3,
               self\<lparr>MacAddr := Some (addr dev), periph := Some p, curr_val_char := Some c\<rparr>)"
      by (simp add: connect_def d establish_def resolve_char_def numeral_2_eq_2 numeral_3_eq_3)
  }
  {
    assume "periph self = None \<and> Peripheral tr (t + j + 1) (Some (addr dev)) = None"
    then show "connect tr (t, self) =
              (Some ConnectionFailed, t + j + 2, self\<lparr>MacAddr := Some (addr dev)\<rparr>)"
      by (simp add: connect_def d establish_def)
  }
next
  assume h: "MacAddr self = None
    \<and> (\<forall>k<50. \<exists>devices. scan tr (t + k) = Some devices
          \<and> (\<forall>d\<in>set devices. \<exists>v. parseSerialNumber (getValueText d) = Inr v
                \<and> v \<noteq> PyInt (SN self)))"
  then have "\<forall>k<50. \<exists>devices. scan tr (t + k) = Some devices
      \<and> find_dev (SN self) devices = Inr None"
    using find_dev_no_match by blast
  with h show c: "connect tr (t, self) = (Some (SystemExit DeviceNotFound), t + 50, self)"
    by (intro discover_exhausted) simp_all
  then show "run (Suc fuel) tr (t, self) =
          Some \<lparr>readings = [], raised = SystemExit DeviceNotFound, caught = False,
                 cleanup = disconnect tr (t + 50, self)\<rparr>"
    by (simp add: run_def cycle_def printed_def)
qed

theorem connect_discovery_witness:
  "discover
      \<lparr>scan = (\<lambda>t. if t = 39 then Some [\<lparr>addr = ''00:00:00:00:00:03'', getValueText = None\<rparr>,
        \<lparr>addr = ''a4:da:32:00:00:01'', getValueText = Some ''340301000000''\<rparr>]
        else Some [\<lparr>addr = ''00:00:00:00:00:03'', getValueText = None\<rparr>]),
       Peripheral = (\<lambda>t a. Some 0), getCharacteristics = (\<lambda>t p u. Some [0]),
       char_read = (\<lambda>t c. Some [1, 0x64, 0, 0, 0x32, 0, 0, 0, 0x90, 1, 0xE8, 3, 0x90, 1, 0x96, 0, 0, 0, 0, 0]),
       periph_disconnect = (\<lambda>t p. True)\<rparr>
      (0, WavePlus_init 1 False)
     = (None, 40, (WavePlus_init 1 False)\<lparr>MacAddr := Some ''a4:da:32:00:00:01''\<rparr>)
   \<and> connect
      \<lparr>scan = (\<lambda>t. if t = 39 then Some [\<lparr>addr = ''00:00:00:00:00:03'', getValueText = None\<rparr>,
        \<lparr>addr = ''a4:da:32:00:00:01'', getValueText = Some ''340301000000''\<rparr>]
        else Some [\<lparr>addr = ''00:00:00:00:00:03'', getValueText = None\<rparr>]),
       Peripheral = (\<lambda>t a. Some 0), getCharacteristics = (\<lambda>t p u. Some [0]),
       char_read = (\<lambda>t c. Some [1, 0x64, 0, 0, 0x32, 0, 0, 0, 0x90, 1, 0xE8, 3, 0x90, 1, 0x96, 0, 0, 0, 0, 0]),
       periph_disconnect = (\<lambda>t p. True)\<rparr>
      (0, WavePlus_init 1 False)
     = (None, 42,
        (WavePlus_init 1 False)\<lparr>MacAddr := Some ''a4:da:32:00:00:01'', periph := Some 0,
          curr_val_char := Some 0\<rparr>)
   \<and> connect
      \<lparr>scan = (\<lambda>t. if t = 39 then Some [\<lparr>addr = ''00:00:00:00:00:03'', getValueText = None\<rparr>,
        \<lparr>addr = ''a4:da:32:00:00:01'', getValueText = Some ''340301000000''\<rparr>]
        else Some [\<lparr>addr = ''00:00:00:00:00:03'', getValueText = None\<rparr>]),
       Peripheral = (\<lambda>t a. None), getCharacteristics = (\<lambda>t p u. Some [0]),
       char_read = (\<lambda>t c. Some [1, 0x64, 0, 0, 0x32, 0, 0, 0, 0x90, 1, 0xE8, 3, 0x90, 1, 0x96, 0, 0, 0, 0, 0]),
       periph_disconnect = (\<lambda>t p. True)\<rparr>
      (0, WavePlus_init 1 False)
     = (Some ConnectionFailed, 41, (WavePlus_init 1 False)\<lparr>MacAddr := Some ''a4:da:32:00:00:01''\<rparr>)
   \<and> connect
      \<lparr>scan = (\<lambda>t. Some [\<lparr>addr = ''00:00:00:00:00:03'', getValueText = None\<rparr>]),
       Peripheral = (\<lambda>t a. Some 0), getCharacteristics = (\<lambda>t p u. Some [0]),
       char_read = (\<lambda>t c. Some [1, 0x64, 0, 0, 0x32, 0, 0, 0, 0x90, 1, 0xE8, 3, 0x90, 1, 0x96, 0, 0, 0, 0, 0]),
       periph_disconnect = (\<lambda>t p. True)\<rparr>
      (0, WavePlus_init 1 False)
     = (Some (SystemExit DeviceNotFound), 50, WavePlus_init 1 False)"
proof -
  let ?tr = "\<lparr>scan = (\<lambda>t. if t = 39 then Some [\<lparr>addr = ''00:00:00:00:00:03'', getValueText = None\<rparr>,
        \<lparr>addr = ''a4:da:32:00:00:01'', getValueText = Some ''340301000000''\<rparr>]
        else Some [\<lparr>addr = ''00:00:00:00:00:03'', getValueText = None\<rparr>]),
       Peripheral = (\<lambda>t a. Some 0), getCharacteristics = (\<lambda>t p u. Some [0]),
       char_read = (\<lambda>t c. Some [1, 0x64, 0, 0, 0x32, 0, 0, 0, 0x90, 1, 0xE8, 3, 0x90, 1, 0x96, 0, 0, 0, 0, 0]),
       periph_disconnect = (\<lambda>t p. True)\<rparr>"
  let ?trf = "\<lparr>scan = (\<lambda>t. if t = 39 then Some [\<lparr>addr = ''00:00:00:00:00:03'', getValueText = None\<rparr>,
        \<lparr>addr = ''a4:da:32:00:00:01'', getValueText = Some ''340301000000''\<rparr>]
        else Some [\<lparr>addr = ''00:00:00:00:00:03'', getValueText = None\<rparr>]),
       Peripheral = (\<lambda>t a. None), getCharacteristics = (\<lambda>t p u. Some [0]),
       char_read = (\<lambda>t c. Some [1, 0x64, 0, 0, 0x32, 0, 0, 0, 0x90, 1, 0xE8, 3, 0x90, 1, 0x96, 0, 0, 0, 0, 0]),
       periph_disconnect = (\<lambda>t p. True)\<rparr>"
  let ?trc = "\<lparr>scan = (\<lambda>t. Some [\<lparr>addr = ''00:00:00:00:00:03'', getValueText = None\<rparr>]),
       Peripheral = (\<lambda>t a. Some 0), getCharacteristics = (\<lambda>t p u. Some [0]),
       char_read = (\<lambda>t c. Some [1, 0x64, 0, 0, 0x32, 0, 0, 0, 0x90, 1, 0xE8, 3, 0x90, 1, 0x96, 0, 0, 0, 0, 0]),
       periph_disconnect = (\<lambda>t p. True)\<rparr>"
  let ?conn = "(WavePlus_init 1 False)\<lparr>MacAddr := Some ''a4:da:32:00:00:01'', periph := Some 0,
          curr_val_char := Some 0\<rparr>"
  have parse: "parseSerialNumber (Some ''340301000000'') = Inr (PyInt 1)"
    "parseSerialNumber None = Inr (PyStr ''Unknown'')"
    by (simp_all add: parseSerialNumber_def bnd_def getitem_def isspace_def hexval_def hexdigits_def)
  have init: "MacAddr (WavePlus_init 1 False) = None" "SN (WavePlus_init 1 False) = 1"
    "periph (WavePlus_init 1 False) = None" "curr_val_char (WavePlus_init 1 False) = None"
    by (simp_all add: WavePlus_init_def)
  note th = connect_discovery
    [where tr = ?tr and t = 0 and self = "WavePlus_init 1 False" and j = 39
      and before = "[\<lparr>addr = ''00:00:00:00:00:03'', getValueText = None\<rparr>]"
      and dev = "\<lparr>addr = ''a4:da:32:00:00:01'', getValueText = Some ''340301000000''\<rparr>"
      and rest = "[]" and p = 0 and c = 0 and cs = "[]"
      and res = None and tc = 42 and selfc = ?conn
      and r = None and t' = 40 and self' = "(WavePlus_init 1 False)\<lparr>MacAddr := Some ''a4:da:32:00:00:01''\<rparr>"]
  note thf = connect_discovery
    [where tr = ?trf and t = 0 and self = "WavePlus_init 1 False" and j = 39
      and before = "[\<lparr>addr = ''00:00:00:00:00:03'', getValueText = None\<rparr>]"
      and dev = "\<lparr>addr = ''a4:da:32:00:00:01'', getValueText = Some ''340301000000''\<rparr>"
      and rest = "[]"]
  note thc = connect_discovery
    [where tr = ?trc and t = 0 and self = "WavePlus_init 1 False"]
  have m: "MacAddr (WavePlus_init 1 False) = None \<and> (39 :: nat) < 50
      \<and> (\<forall>k<39. \<exists>devices. scan ?tr (0 + k) = Some devices
            \<and> (\<forall>d\<in>set devices. \<exists>v. parseSerialNumber (getValueText d) = Inr v
                  \<and> v \<noteq> PyInt (SN (WavePlus_init 1 False))))
      \<and> scan ?tr (0 + 39) = Some ([\<lparr>addr = ''00:00:00:00:00:03'', getValueText = None\<rparr>] @ \<lparr>addr = ''a4:da:32:00:00:01'', getValueText = Some ''340301000000''\<rparr> # [])
      \<and> (\<forall>d\<in>set [\<lparr>addr = ''00:00:00:00:00:03'', getValueText = None\<rparr>]. \<exists>v. parseSerialNumber (getValueText d) = Inr v
            \<and> v \<noteq> PyInt (SN (WavePlus_init 1 False)))
      \<and> parseSerialNumber (getValueText \<lparr>addr = ''a4:da:32:00:00:01'', getValueText = Some ''340301000000''\<rparr>)
          = Inr (PyInt (SN (WavePlus_init 1 False)))"
    by (simp add: parse init)
  have mf: "MacAddr (WavePlus_init 1 False) = None \<and> (39 :: nat) < 50
      \<and> (\<forall>k<39. \<exists>devices. scan ?trf (0 + k) = Some devices
            \<and> (\<forall>d\<in>set devices. \<exists>v. parseSerialNumber (getValueText d) = Inr v
                  \<and> v \<noteq> PyInt (SN (WavePlus_init 1 False))))
      \<and> scan ?trf (0 + 39) = Some ([\<lparr>addr = ''00:00:00:00:00:03'', getValueText = None\<rparr>] @ \<lparr>addr = ''a4:da:32:00:00:01'', getValueText = Some ''340301000000''\<rparr> # [])
      \<and> (\<forall>d\<in>set [\<lparr>addr = ''00:00:00:00:00:03'', getValueText = None\<rparr>]. \<exists>v. parseSerialNumber (getValueText d) = Inr v
            \<and> v \<noteq> PyInt (SN (WavePlus_init 1 False)))
      \<and> parseSerialNumber (getValueText \<lparr>addr = ''a4:da:32:00:00:01'', getValueText = Some ''340301000000''\<rparr>)
          = Inr (PyInt (SN (WavePlus_init 1 False)))"
    by (simp add: parse init)
  note found = th [THEN conjunct2, THEN conjunct1, THEN mp, OF m]
  have d: "discover ?tr (0, WavePlus_init 1 False)
      = (None, 40, (WavePlus_init 1 False)\<lparr>MacAddr := Some ''a4:da:32:00:00:01''\<rparr>)"
    using found [THEN conjunct1] by simp
  have "0 \<le> (40 :: nat) \<and> (40 :: nat) \<le> 0 + 50"
    by (rule th [THEN conjunct1, THEN mp, OF d])
  have "connect ?tr (0, WavePlus_init 1 False) =
      (None, 0 + 39 + 3,
       (WavePlus_init 1 False)\<lparr>MacAddr := Some (addr \<lparr>addr = ''a4:da:32:00:00:01'', getValueText = Some ''340301000000''\<rparr>),
          periph := Some 0, curr_val_char := Some 0\<rparr>)"
    by (rule found [THEN conjunct2, THEN conjunct2, THEN conjunct2, THEN conjunct1, THEN mp])
      (simp add: init WavePlus_init_def)
  then have c: "connect ?tr (0, WavePlus_init 1 False) = (None, 42, ?conn)"
    by simp
  have "MacAddr ?conn = Some (addr \<lparr>addr = ''a4:da:32:00:00:01'', getValueText = Some ''340301000000''\<rparr>)
      \<and> ((None :: error option) = None \<or> None = Some ConnectionFailed)
      \<and> ((None :: error option) = None
          \<longrightarrow> periph ?conn \<noteq> None \<and> curr_val_char ?conn \<noteq> None)"
    by (rule found [THEN conjunct2, THEN conjunct2, THEN conjunct1, THEN mp, OF c])
  have "connect ?trf (0, WavePlus_init 1 False) =
      (Some ConnectionFailed, 0 + 39 + 2,
       (WavePlus_init 1 False)\<lparr>MacAddr := Some (addr \<lparr>addr = ''a4:da:32:00:00:01'', getValueText = Some ''340301000000''\<rparr>)\<rparr>)"
    by (rule thf [THEN conjunct2, THEN conjunct1, THEN mp, OF mf, THEN conjunct2,
          THEN conjunct2, THEN conjunct2, THEN conjunct2, THEN mp])
      (simp add: init)
  then have cf: "connect ?trf (0, WavePlus_init 1 False)
      = (Some ConnectionFailed, 41, (WavePlus_init 1 False)\<lparr>MacAddr := Some ''a4:da:32:00:00:01''\<rparr>)"
    by simp
  have x: "MacAddr (WavePlus_init 1 False) = None
      \<and> (\<forall>k<50. \<exists>devices. scan ?trc (0 + k) = Some devices
            \<and> (\<forall>d\<in>set devices. \<exists>v. parseSerialNumber (getValueText d) = Inr v
                  \<and> v \<noteq> PyInt (SN (WavePlus_init 1 False))))"
    by (simp add: parse init)
  have "connect ?trc (0, WavePlus_init 1 False)
      = (Some (SystemExit DeviceNotFound), 0 + 50, WavePlus_init 1 False)"
    by (rule thc [THEN conjunct2, THEN conjunct2, THEN mp, OF x, THEN conjunct1])
  then have cx: "connect ?trc (0, WavePlus_init 1 False)
      = (Some (SystemExit DeviceNotFound), 50, WavePlus_init 1 False)"
    by simp
  from d c cf cx show ?thesis
    by blast
qed




text \<open>
  Claim C8, as stated, fails. After a \<^verbatim>\<open>connect\<close> that succeeded, the library's
  \<^verbatim>\<open>disconnect\<close> raises: \<^verbatim>\<open>WavePlus.disconnect\<close> raises with it, and the connection and
  the characteristic stay as they were.
\<close>

theorem disconnect_raises:
  "connect
      \<lparr>scan = (\<lambda>t. Some [\<lparr>addr = ''a4:da:32:00:00:01'', getValueText = Some ''340301000000''\<rparr>]),
       Peripheral = (\<lambda>t a. Some 0), getCharacteristics = (\<lambda>t p u. Some [0]),
       char_read = (\<lambda>t c. Some [1, 0x64, 0, 0, 0x32, 0, 0, 0, 0x90, 1, 0xE8, 3, 0x90, 1, 0x96, 0, 0, 0, 0, 0]),
       periph_disconnect = (\<lambda>t p. False)\<rparr>
      (0, WavePlus_init 1 False)
     = (None, 3,
        \<lparr>periph = Some 0, curr_val_char = Some 0, MacAddr = Some ''a4:da:32:00:00:01'', SN = 1,
         uuid = ''b42e4dcc-ade7-11e4-89d3-123b93f75cba'', numSensors = 4\<rparr>)
   \<and> disconnect
      \<lparr>scan = (\<lambda>t. Some [\<lparr>addr = ''a4:da:32:00:00:01'', getValueText = Some ''340301000000''\<rparr>]),
       Peripheral = (\<lambda>t a. Some 0), getCharacteristics = (\<lambda>t p u. Some [0]),
       char_read = (\<lambda>t c. Some [1, 0x64, 0, 0, 0x32, 0, 0, 0, 0x90, 1, 0xE8, 3, 0x90, 1, 0x96, 0, 0, 0, 0, 0]),
       periph_disconnect = (\<lambda>t p. False)\<rparr>
      (3, \<lparr>periph = Some 0, curr_val_char = Some 0, MacAddr = Some ''a4:da:32:00:00:01'', SN = 1,
        uuid = ''b42e4dcc-ade7-11e4-89d3-123b93f75cba'', numSensors = 4\<rparr>)
     = (Some TransportError, 4,
        \<lparr>periph = Some 0, curr_val_char = Some 0, MacAddr = Some ''a4:da:32:00:00:01'', SN = 1,
         uuid = ''b42e4dcc-ade7-11e4-89d3-123b93f75cba'', numSensors = 4\<rparr>)"
  by (simp add: disconnect_def connect_def discover_def establish_def resolve_char_def search.simps WavePlus_init_def
      parseSerialNumber_def bnd_def getitem_def isspace_def hexval_def hexdigits_def)

text \<open>
  Claim C8, amended. With no connection held, also when none was ever made,
  \<^verbatim>\<open>disconnect\<close> returns and changes nothing. With a connection held, it returns when the
  library's \<^verbatim>\<open>disconnect\<close> returns, and has then cleared the connection and the
  characteristic; when the library's call raises, it raises too and clears nothing.
  In every session that the program can reach, a \<^verbatim>\<open>disconnect\<close> that has returned
  leaves the connection and the characteristic cleared, and a second call right after it
  returns as well and changes nothing, whatever the library does.
\<close>

theorem disconnect_clears:
  "(periph self = None \<longrightarrow> disconnect tr (t, self) = (None, t, self)) \<and>
   (periph self = Some p \<and> periph_disconnect tr t p \<longrightarrow>
      disconnect tr (t, self)
        = (None, Suc t, self\<lparr>periph := None, curr_val_char := None\<rparr>)) \<and>
   (periph self = Some p \<and> \<not> periph_disconnect tr t p \<longrightarrow>
      disconnect tr (t, self) = (Some TransportError, Suc t, self)) \<and>
   (reachable tr serial hasAirQuality (t, self) \<and> disconnect tr (t, self) = (None, t', self')
      \<longrightarrow> periph self' = None \<and> curr_val_char self' = None
        \<and> disconnect tr' (t', self') = (None, t', self'))"
proof (intro conjI impI)
  assume h: "reachable tr serial hasAirQuality (t, self)
    \<and> disconnect tr (t, self) = (None, t', self')"
  then have paired: "periph self = None \<longrightarrow> curr_val_char self = None"
    using reachable_invariant [of tr serial hasAirQuality "(t, self)"] by simp
  from h have d: "disconnect tr (t, self) = (None, t', self')" by simp
  from d paired show "periph self' = None" by (cases rule: disconnect_cases) auto
  then show "disconnect tr' (t', self') = (None, t', self')" by (simp add: disconnect_def)
  from d paired show "curr_val_char self' = None" by (cases rule: disconnect_cases) auto
qed (simp_all add: disconnect_def)

theorem disconnect_clears_witness:
  "disconnect
      \<lparr>scan = (\<lambda>t. Some [\<lparr>addr = ''a4:da:32:00:00:01'', getValueText = Some ''340301000000''\<rparr>]),
       Peripheral = (\<lambda>t a. Some 0), getCharacteristics = (\<lambda>t p u. Some [0]),
       char_read = (\<lambda>t c. Some [1, 0x64, 0, 0, 0x32, 0, 0, 0, 0x90, 1, 0xE8, 3, 0x90, 1, 0x96, 0, 0, 0, 0, 0]),
       periph_disconnect = (\<lambda>t p. True)\<rparr>
      (0, WavePlus_init 1 False)
     = (None, 0, WavePlus_init 1 False)
   \<and> disconnect
      \<lparr>scan = (\<lambda>t. Some [\<lparr>addr = ''a4:da:32:00:00:01'', getValueText = Some ''340301000000''\<rparr>]),
       Peripheral = (\<lambda>t a. Some 0), getCharacteristics = (\<lambda>t p u. Some [0]),
       char_read = (\<lambda>t c. Some [1, 0x64, 0, 0, 0x32, 0, 0, 0, 0x90, 1, 0xE8, 3, 0x90, 1, 0x96, 0, 0, 0, 0, 0]),
       periph_disconnect = (\<lambda>t p. True)\<rparr>
      (3, \<lparr>periph = Some 0, curr_val_char = Some 0, MacAddr = Some ''a4:da:32:00:00:01'', SN = 1,
        uuid = ''b42e4dcc-ade7-11e4-89d3-123b93f75cba'', numSensors = 4\<rparr>)
     = (None, 4,
        \<lparr>periph = None, curr_val_char = None, MacAddr = Some ''a4:da:32:00:00:01'', SN = 1,
         uuid = ''b42e4dcc-ade7-11e4-89d3-123b93f75cba'', numSensors = 4\<rparr>)
   \<and> disconnect
      \<lparr>scan = (\<lambda>t. Some [\<lparr>addr = ''a4:da:32:00:00:01'', getValueText = Some ''340301000000''\<rparr>]),
       Peripheral = (\<lambda>t a. Some 0), getCharacteristics = (\<lambda>t p u. Some [0]),
       char_read = (\<lambda>t c. Some [1, 0x64, 0, 0, 0x32, 0, 0, 0, 0x90, 1, 0xE8, 3, 0x90, 1, 0x96, 0, 0, 0, 0, 0]),
       periph_disconnect = (\<lambda>t p. False)\<rparr>
      (4, \<lparr>periph = None, curr_val_char = None, MacAddr = Some ''a4:da:32:00:00:01'', SN = 1,
        uuid = ''b42e4dcc-ade7-11e4-89d3-123b93f75cba'', numSensors = 4\<rparr>)
     = (None, 4,
        \<lparr>periph = None, curr_val_char = None, MacAddr = Some ''a4:da:32:00:00:01'', SN = 1,
         uuid = ''b42e4dcc-ade7-11e4-89d3-123b93f75cba'', numSensors = 4\<rparr>)"
proof -
  let ?tr = "\<lparr>scan = (\<lambda>t. Some [\<lparr>addr = ''a4:da:32:00:00:01'', getValueText = Some ''340301000000''\<rparr>]),
       Peripheral = (\<lambda>t a. Some 0), getCharacteristics = (\<lambda>t p u. Some [0]),
       char_read = (\<lambda>t c. Some [1, 0x64, 0, 0, 0x32, 0, 0, 0, 0x90, 1, 0xE8, 3, 0x90, 1, 0x96, 0, 0, 0, 0, 0]),
       periph_disconnect = (\<lambda>t p. True)\<rparr>"
  let ?tr' = "\<lparr>scan = (\<lambda>t. Some [\<lparr>addr = ''a4:da:32:00:00:01'', getValueText = Some ''340301000000''\<rparr>]),
       Peripheral = (\<lambda>t a. Some 0), getCharacteristics = (\<lambda>t p u. Some [0]),
       char_read = (\<lambda>t c. Some [1, 0x64, 0, 0, 0x32, 0, 0, 0, 0x90, 1, 0xE8, 3, 0x90, 1, 0x96, 0, 0, 0, 0, 0]),
       periph_disconnect = (\<lambda>t p. False)\<rparr>"
  let ?wc = "\<lparr>periph = Some 0, curr_val_char = Some 0, MacAddr = Some ''a4:da:32:00:00:01'', SN = 1,
        uuid = ''b42e4dcc-ade7-11e4-89d3-123b93f75cba'', numSensors = 4\<rparr>"
  let ?w = "\<lparr>periph = None, curr_val_char = None, MacAddr = Some ''a4:da:32:00:00:01'', SN = 1,
        uuid = ''b42e4dcc-ade7-11e4-89d3-123b93f75cba'', numSensors = 4\<rparr>"
  note th0 = disconnect_clears [where self = "WavePlus_init 1 False" and tr = ?tr and t = 0]
  note th1 = disconnect_clears
    [where self = ?wc and tr = ?tr and t = 3 and p = 0 and serial = 1
      and hasAirQuality = False and t' = 4 and self' = ?w and tr' = ?tr']
  note th2 = disconnect_clears [where self = ?wc and tr = ?tr' and t = 3 and p = 0]
  have c: "connect ?tr (0, WavePlus_init 1 False) = (None, 3, ?wc)"
    by (simp add: connect_def discover_def establish_def resolve_char_def search.simps WavePlus_init_def
        parseSerialNumber_def bnd_def getitem_def isspace_def hexval_def hexdigits_def)
  have r0: "reachable ?tr 1 False (0, WavePlus_init 1 False)"
    by (rule reachable.created)
  have r: "reachable ?tr 1 False (3, ?wc)"
    by (rule reachable.connected [OF r0 c])
  have i: "periph (WavePlus_init 1 False) = None"
    by (simp add: WavePlus_init_def)
  have a: "disconnect ?tr (0, WavePlus_init 1 False) = (None, 0, WavePlus_init 1 False)"
    by (rule th0 [THEN conjunct1, THEN mp, OF i])
  have held: "periph ?wc = Some 0 \<and> periph_disconnect ?tr 3 0"
    by simp
  have "disconnect ?tr (3, ?wc)
      = (None, Suc 3, ?wc\<lparr>periph := None, curr_val_char := None\<rparr>)"
    by (rule th1 [THEN conjunct2, THEN conjunct1, THEN mp, OF held])
  then have b: "disconnect ?tr (3, ?wc) = (None, 4, ?w)"
    by simp
  have held': "periph ?wc = Some 0 \<and> \<not> periph_disconnect ?tr' 3 0"
    by simp
  have "disconnect ?tr' (3, ?wc) = (Some TransportError, Suc 3, ?wc)"
    by (rule th2 [THEN conjunct2, THEN conjunct2, THEN conjunct1, THEN mp, OF held'])
  have again: "periph ?w = None \<and> curr_val_char ?w = None
      \<and> disconnect ?tr' (4, ?w) = (None, 4, ?w)"
    by (rule th1 [THEN conjunct2, THEN conjunct2, THEN conjunct2, THEN mp,
          OF conjI [OF r b]])
  from a b again show ?thesis
    by blast
qed

end
